theory Spec2Isabelle
  imports Complex_Main "HOL-Library.Sublist"
begin

section \<open>Python values shared by the scripts\<close>

text \<open>
  A Python \<^verbatim>\<open>dict\<close> keeps its keys in insertion order and the scripts iterate over
  their dictionaries, so a dictionary is an association list with distinct keys:
  \<open>dict_has\<close> is \<^verbatim>\<open>k in d\<close>, \<open>map_of d k\<close> is \<^verbatim>\<open>d.get(k)\<close> and \<open>dict_set\<close> is
  \<^verbatim>\<open>d[k] = v\<close> (an existing key keeps its position, a new key goes to the end).
  Strings are lists of code points, all of them below 256.
\<close>

definition dict_has :: "('k \<times> 'v) list \<Rightarrow> 'k \<Rightarrow> bool" where
  "dict_has d k = (map_of d k \<noteq> None)"

fun dict_set :: "('k \<times> 'v) list \<Rightarrow> 'k \<Rightarrow> 'v \<Rightarrow> ('k \<times> 'v) list" where
  "dict_set [] k v = [(k, v)]"
| "dict_set ((k', v') # d) k v =
     (if k' = k then (k, v) # d else (k', v') # dict_set d k v)"

section \<open>The structural IDS parser (IDS\_Parser\_2.py, ids\_match\_panel.py)\<close>

text \<open>
  An \<^verbatim>\<open>xml.etree.ElementTree\<close> element: its tag (\<^verbatim>\<open>{uri}local\<close> when the element is
  in a namespace), its attributes, its text (\<^verbatim>\<open>None\<close> when absent) and its children in
  document order. \<^verbatim>\<open>ET.parse\<close> itself is outside the model: \<open>parse_ids\<close> starts from the
  root element that it returns.
\<close>

datatype xml =
  Elem (xml_tag: string) (xml_attrib: "(string \<times> string) list")
       (xml_text: "string option") (xml_children: "xml list")

text \<open>\<^verbatim>\<open>s.strip("{")\<close>: the character is removed from both ends.\<close>

definition strip_char :: "char \<Rightarrow> string \<Rightarrow> string" where
  "strip_char c s = rev (dropWhile (\<lambda>x. x = c) (rev (dropWhile (\<lambda>x. x = c) s)))"

text \<open>
  \<open>get_namespaces\<close> returns the dictionary \<^verbatim>\<open>{"ids": uri}\<close>; the model keeps the uri,
  the only entry. \<^verbatim>\<open>root.tag.split("}")[0]\<close> is the tag up to its first \<^verbatim>\<open>}\<close>.
\<close>

definition get_namespaces :: "xml \<Rightarrow> string" where
  "get_namespaces rt =
     (if prefix ''{'' (xml_tag rt)
      then strip_char (CHR ''{'') (takeWhile (\<lambda>x. x \<noteq> CHR ''}'') (xml_tag rt))
      else '''')"

text \<open>
  The tag that ElementPath looks for when the path step is \<^verbatim>\<open>ids:local\<close>: the
  tokenizer builds \<^verbatim>\<open>"{%s}%s" % (namespaces["ids"], local)\<close> and the child selector
  drops a leading \<^verbatim>\<open>{}\<close>.
\<close>

definition qname :: "string \<Rightarrow> string \<Rightarrow> string" where
  "qname uri local =
     (let t = ''{'' @ uri @ ''}'' @ local
      in if take 2 t = ''{}'' then drop 2 t else t)"

definition findall :: "string \<Rightarrow> xml \<Rightarrow> xml list" where
  "findall t e = filter (\<lambda>c. xml_tag c = t) (xml_children e)"

definition find_xml :: "string \<Rightarrow> xml \<Rightarrow> xml option" where
  "find_xml t e = (case findall t e of [] \<Rightarrow> None | c # _ \<Rightarrow> Some c)"

text \<open>
  \<^verbatim>\<open>e.findtext("ids:t1/ids:t2", default="")\<close>: the text of the first \<open>t2\<close> child of a
  \<open>t1\<close> child in document order, the empty string when that element has no text, and
  the default when there is no such element.
\<close>

definition findtext :: "string \<Rightarrow> string \<Rightarrow> xml \<Rightarrow> string" where
  "findtext t1 t2 e =
     (case concat (map (findall t2) (findall t1 e)) of
        [] \<Rightarrow> ''''
      | c # _ \<Rightarrow> (case xml_text c of None \<Rightarrow> '''' | Some s \<Rightarrow> s))"

text \<open>
  The Entity Requirement Map: entity key to \<^verbatim>\<open>{"name": ..., "properties": {pset:
  {base_name: {}}}}\<close>. The innermost dictionaries stay empty, so they are \<open>unit\<close>.
\<close>

type_synonym pset_map = "(string \<times> (string \<times> unit) list) list"

record entry =
  entry_name :: string
  entry_properties :: pset_map

type_synonym result = "(string \<times> entry) list"

text \<open>
  Whether the properties of an entry hold the placeholder for a property of a property
  set, \<^verbatim>\<open>bn in props.get(ps, {})\<close>.
\<close>

definition has_placeholder :: "pset_map \<Rightarrow> string \<Rightarrow> string \<Rightarrow> bool" where
  "has_placeholder props ps bn = (case map_of props ps of None \<Rightarrow> False | Some m \<Rightarrow> dict_has m bn)"

text \<open>
  The body of the loop over \<^verbatim>\<open>requirements.findall("ids:property")\<close>, on the
  properties of the entry at hand. The lookup of \<open>prop_set\<close> in \<open>props1\<close> finds the
  property set, which is there by then; its branch \<open>None\<close> is never taken.
\<close>

definition add_property :: "string \<Rightarrow> pset_map \<Rightarrow> xml \<Rightarrow> pset_map" where
  "add_property NS props prop =
     (let prop_set = findtext (qname NS ''propertySet'') (qname NS ''simpleValue'') prop;
          base_name = findtext (qname NS ''baseName'') (qname NS ''simpleValue'') prop
      in if prop_set \<noteq> '''' then
           (let props1 = (if \<not> dict_has props prop_set then dict_set props prop_set [] else props)
            in if base_name \<noteq> '''' then
                 (case map_of props1 prop_set of
                    None \<Rightarrow> props1
                  | Some ps \<Rightarrow>
                      if \<not> dict_has ps base_name
                      then dict_set props1 prop_set (dict_set ps base_name ())
                      else props1)
               else props1)
         else props)"

definition entity_key_of :: "string \<Rightarrow> xml \<Rightarrow> string" where
  "entity_key_of NS entity =
     (let name = findtext (qname NS ''name'') (qname NS ''simpleValue'') entity;
          predefined = findtext (qname NS ''predefinedType'') (qname NS ''simpleValue'') entity
      in if predefined \<noteq> '''' then name @ ''.'' @ predefined else name)"

definition duplicate_warning :: "string \<Rightarrow> string" where
  "duplicate_warning entity_key = ''WARNING: Duplicate entity key '' @ [CHR 0x27] @ entity_key @ [CHR 0x27] @ '' found''"

text \<open>
  The body of the loop over \<^verbatim>\<open>applicability.findall("ids:entity")\<close>. The state is the
  result dictionary and the lines printed so far. The entry is looked up after it was
  ensured, so the branch \<open>None\<close> of that lookup is never taken.
\<close>

definition add_entity ::
  "string \<Rightarrow> string \<Rightarrow> xml \<Rightarrow> result \<times> string list \<Rightarrow> xml \<Rightarrow> result \<times> string list" where
  "add_entity NS spec_name requirements st entity =
     (let result = fst st; out = snd st;
          entity_key = entity_key_of NS entity;
          out1 = (if dict_has result entity_key then out @ [duplicate_warning entity_key] else out);
          result1 = (if \<not> dict_has result entity_key
                     then dict_set result entity_key \<lparr>entry_name = spec_name, entry_properties = []\<rparr>
                     else result)
      in case map_of result1 entity_key of
           None \<Rightarrow> (result1, out1)
         | Some ent \<Rightarrow>
             (dict_set result1 entity_key
                (ent\<lparr>entry_properties :=
                       foldl (add_property NS) (entry_properties ent)
                         (findall (qname NS ''property'') requirements)\<rparr>),
              out1))"

text \<open>The body of the loop over the specifications.\<close>

definition add_specification :: "string \<Rightarrow> result \<times> string list \<Rightarrow> xml \<Rightarrow> result \<times> string list" where
  "add_specification NS st spec =
     (let spec_name = (case map_of (xml_attrib spec) ''name'' of None \<Rightarrow> '''' | Some n \<Rightarrow> n);
          applicability = find_xml (qname NS ''applicability'') spec;
          requirements = find_xml (qname NS ''requirements'') spec
      in case applicability of
           None \<Rightarrow> st
         | Some a \<Rightarrow>
             (case requirements of
                None \<Rightarrow> st
              | Some r \<Rightarrow> foldl (add_entity NS spec_name r) st (findall (qname NS ''entity'') a)))"

definition parse_ids :: "xml \<Rightarrow> result \<times> string list" where
  "parse_ids rt =
     (let NS = get_namespaces rt
      in case find_xml (qname NS ''specifications'') rt of
           None \<Rightarrow> ([], [])
         | Some specifications \<Rightarrow>
             foldl (add_specification NS) ([], []) (findall (qname NS ''specification'') specifications))"

section \<open>The Match panel (ids\_match\_panel.py)\<close>

text \<open>
  \<open>SimpleTreeNode\<close> with its five properties, the scene attributes that the match
  operator reads and writes, and what an operator hands back: its reports and its
  return status.
\<close>

record SimpleTreeNode =
  name :: string
  node_type :: string
  level :: int
  expanded :: bool
  has_children :: bool

record match_scene =
  simple_tree_nodes :: "SimpleTreeNode list"
  simple_selected_index :: int
  simple_match_results :: string
  simple_has_match_results :: bool
  simple_matched_entity :: string

datatype report_level = INFO | WARNING | ERROR

datatype op_status = FINISHED | CANCELLED

type_synonym report = "report_level \<times> string"

text \<open>
  The tree that \<open>SIMPLE_OT_analyze_ids\<close> builds from a parsed IDS file: the entity
  node, then for each of its property sets the set and its properties.
\<close>

definition property_nodes :: "(string \<times> unit) list \<Rightarrow> SimpleTreeNode list" where
  "property_nodes pset_data =
     map (\<lambda>(prop_name, _). \<lparr>name = prop_name, node_type = ''Property'', level = 2,
                               expanded = False, has_children = False\<rparr>) pset_data"

definition pset_nodes :: "pset_map \<Rightarrow> SimpleTreeNode list" where
  "pset_nodes props =
     concat (map (\<lambda>(pset_name, pset_data).
        \<lparr>name = pset_name, node_type = ''PropertySet'', level = 1,
           expanded = False, has_children = (pset_data \<noteq> [])\<rparr> # property_nodes pset_data) props)"

definition build_tree :: "result \<Rightarrow> SimpleTreeNode list" where
  "build_tree json_data =
     concat (map (\<lambda>(entity_key, entity_data).
        \<lparr>name = entity_key, node_type = ''Entity'', level = 0,
           expanded = False, has_children = (entry_properties entity_data \<noteq> [])\<rparr>
        # (if entry_properties entity_data \<noteq> [] then pset_nodes (entry_properties entity_data) else []))
        json_data)"

text \<open>
  \<open>_find_parent_entity\<close>: the loop \<^verbatim>\<open>for i in range(selected_idx - 1, -1, -1)\<close>.
  \<open>find_parent_below nodes n\<close> visits the indices \<open>n - 1\<close> down to \<open>0\<close>; the result
  \<open>None\<close> is the \<^verbatim>\<open>return None\<close> after the loop.
\<close>

fun find_parent_below :: "SimpleTreeNode list \<Rightarrow> nat \<Rightarrow> string option" where
  "find_parent_below nodes 0 = None"
| "find_parent_below nodes (Suc i) =
     (if level (nodes ! i) = 0 \<and> node_type (nodes ! i) = ''Entity''
      then Some (name (nodes ! i))
      else find_parent_below nodes i)"

definition find_parent_entity :: "match_scene \<Rightarrow> int \<Rightarrow> string option" where
  "find_parent_entity scene selected_idx =
     find_parent_below (simple_tree_nodes scene) (nat selected_idx)"

definition store_match :: "match_scene \<Rightarrow> string \<Rightarrow> match_scene" where
  "store_match scene ifc_class =
     scene\<lparr>simple_match_results := ifc_class,
           simple_has_match_results := True,
           simple_matched_entity := ifc_class\<rparr>"

text \<open>
  \<open>SIMPLE_OT_match_ids.execute\<close>. The test \<^verbatim>\<open>if parent_entity:\<close> is Python truthiness:
  it fails for \<^verbatim>\<open>None\<close> and for the empty string.
\<close>

definition match_execute :: "match_scene \<Rightarrow> match_scene \<times> report list \<times> op_status" where
  "match_execute scene =
     (let selected_idx = simple_selected_index scene
      in if selected_idx < 0 \<or> selected_idx \<ge> int (length (simple_tree_nodes scene))
         then (scene, [(ERROR, ''Please select an element from the tree first'')], CANCELLED)
         else
           (let selected_node = simple_tree_nodes scene ! nat selected_idx
            in if node_type selected_node = ''Entity''
               then (store_match scene (name selected_node),
                     [(INFO, ''Selected IFC class: '' @ name selected_node)], FINISHED)
               else if node_type selected_node \<in> {''PropertySet'', ''Property''}
               then (case find_parent_entity scene selected_idx of
                       None \<Rightarrow> (scene, [(ERROR, ''Could not determine parent IFC class'')], CANCELLED)
                     | Some parent_entity \<Rightarrow>
                         if parent_entity \<noteq> ''''
                         then (store_match scene parent_entity,
                               [(INFO, ''Selected element belongs to IFC class: '' @ parent_entity)],
                               FINISHED)
                         else (scene, [(ERROR, ''Could not determine parent IFC class'')], CANCELLED))
               else (scene, [(ERROR, ''Unknown element type selected'')], CANCELLED)))"

section \<open>The patch engine (IFC\_fix\_properties.py, ids\_patch\_panel*.py)\<close>

subsection \<open>Python's constructors \<^verbatim>\<open>int\<close>, \<^verbatim>\<open>float\<close>, \<^verbatim>\<open>str\<close> and \<^verbatim>\<open>bool\<close>\<close>

text \<open>
  The values that a JSON scalar or an IFC \<^verbatim>\<open>wrappedValue\<close> can be. Floating point is
  not modelled: the type \<open>'f\<close> of floats and the six operations on it that the
  constructors need are parameters, and every statement below holds for any choice of
  them.
\<close>

datatype 'f pyval = PNone | PBool bool | PInt int | PFloat 'f | PStr string

datatype py_error = ValueError | TypeError | AttributeError | OverflowError

record 'f float_ops =
  float_of_str :: "string \<Rightarrow> py_error + 'f"
  float_of_int :: "int \<Rightarrow> py_error + 'f"
  int_of_float :: "'f \<Rightarrow> py_error + int"
  str_of_float :: "'f \<Rightarrow> string"
  float_nonzero :: "'f \<Rightarrow> bool"
  float_eq :: "'f \<Rightarrow> 'f \<Rightarrow> bool"

text \<open>
  \<^verbatim>\<open>int(s)\<close> for a string: white space is stripped (the code points 9 to 13, 32, 133
  and 160 are the ones below 256 that \<^verbatim>\<open>int\<close> skips), then an optional sign, then
  decimal digits, where single underscores may separate digits. Anything else is a
  \<^verbatim>\<open>ValueError\<close>, here \<open>None\<close>. The interpreter's limit on the number of digits (4300
  by default) is not modelled.
\<close>

definition int_space :: "char \<Rightarrow> bool" where
  "int_space c = (of_char c \<in> {9, 10, 11, 12, 13, 32, 133, 160 :: nat})"

definition is_digit :: "char \<Rightarrow> bool" where
  "is_digit c = (48 \<le> (of_char c :: nat) \<and> (of_char c :: nat) \<le> 57)"

definition digit_value :: "char \<Rightarrow> nat" where
  "digit_value c = of_char c - 48"

fun parse_digits :: "bool \<Rightarrow> nat \<Rightarrow> string \<Rightarrow> nat option" where
  "parse_digits after_digit acc [] = (if after_digit then Some acc else None)"
| "parse_digits after_digit acc (c # cs) =
     (if is_digit c then parse_digits True (10 * acc + digit_value c) cs
      else if c = CHR ''_'' \<and> after_digit then parse_digits False acc cs
      else None)"

definition int_of_str :: "string \<Rightarrow> int option" where
  "int_of_str s =
     (let t = rev (dropWhile int_space (rev (dropWhile int_space s)))
      in case t of
           [] \<Rightarrow> None
         | c # cs \<Rightarrow>
             if c = CHR ''-'' then map_option (\<lambda>n. - int n) (parse_digits False 0 cs)
             else if c = CHR ''+'' then map_option int (parse_digits False 0 cs)
             else map_option int (parse_digits False 0 t))"

text \<open>\<^verbatim>\<open>str(n)\<close> for an integer: its decimal digits, with a minus sign when negative.\<close>

function str_of_nat :: "nat \<Rightarrow> string" where
  "str_of_nat n =
     (if n < 10 then [char_of (48 + n)]
      else str_of_nat (n div 10) @ [char_of (48 + n mod 10)])"
  by pat_completeness auto
termination
  by (relation "measure id") auto

declare str_of_nat.simps [simp del]

definition str_of_int :: "int \<Rightarrow> string" where
  "str_of_int i = (if i < 0 then ''-'' @ str_of_nat (nat (- i)) else str_of_nat (nat i))"

fun py_int :: "'f float_ops \<Rightarrow> 'f pyval \<Rightarrow> py_error + int" where
  "py_int fl PNone = Inl TypeError"
| "py_int fl (PBool b) = Inr (if b then 1 else 0)"
| "py_int fl (PInt n) = Inr n"
| "py_int fl (PFloat x) = int_of_float fl x"
| "py_int fl (PStr s) = (case int_of_str s of None \<Rightarrow> Inl ValueError | Some n \<Rightarrow> Inr n)"

fun py_float :: "'f float_ops \<Rightarrow> 'f pyval \<Rightarrow> py_error + 'f" where
  "py_float fl PNone = Inl TypeError"
| "py_float fl (PBool b) = float_of_int fl (if b then 1 else 0)"
| "py_float fl (PInt n) = float_of_int fl n"
| "py_float fl (PFloat x) = Inr x"
| "py_float fl (PStr s) = float_of_str fl s"

fun py_str :: "'f float_ops \<Rightarrow> 'f pyval \<Rightarrow> string" where
  "py_str fl PNone = ''None''"
| "py_str fl (PBool b) = (if b then ''True'' else ''False'')"
| "py_str fl (PInt n) = str_of_int n"
| "py_str fl (PFloat x) = str_of_float fl x"
| "py_str fl (PStr s) = s"

fun py_bool :: "'f float_ops \<Rightarrow> 'f pyval \<Rightarrow> bool" where
  "py_bool fl PNone = False"
| "py_bool fl (PBool b) = b"
| "py_bool fl (PInt n) = (n \<noteq> 0)"
| "py_bool fl (PFloat x) = float_nonzero fl x"
| "py_bool fl (PStr s) = (s \<noteq> '''')"

text \<open>\<^verbatim>\<open>type(v)(x)\<close>: \<open>x\<close> converted by the constructor of the runtime type of \<open>v\<close>.\<close>

fun coerce_like :: "'f float_ops \<Rightarrow> 'f pyval \<Rightarrow> 'f pyval \<Rightarrow> py_error + 'f pyval" where
  "coerce_like fl PNone x = Inl TypeError"
| "coerce_like fl (PBool _) x = Inr (PBool (py_bool fl x))"
| "coerce_like fl (PInt _) x = (case py_int fl x of Inl e \<Rightarrow> Inl e | Inr n \<Rightarrow> Inr (PInt n))"
| "coerce_like fl (PFloat _) x = (case py_float fl x of Inl e \<Rightarrow> Inl e | Inr y \<Rightarrow> Inr (PFloat y))"
| "coerce_like fl (PStr _) x = Inr (PStr (py_str fl x))"

text \<open>
  \<^verbatim>\<open>a == b\<close> for two values of one runtime type, which is how the patch engine compares
  (the right-hand side has just been converted to the type of the left-hand side).
\<close>

fun py_eq :: "'f float_ops \<Rightarrow> 'f pyval \<Rightarrow> 'f pyval \<Rightarrow> bool" where
  "py_eq fl PNone PNone = True"
| "py_eq fl (PBool a) (PBool b) = (a = b)"
| "py_eq fl (PInt a) (PInt b) = (a = b)"
| "py_eq fl (PFloat a) (PFloat b) = float_eq fl a b"
| "py_eq fl (PStr a) (PStr b) = (a = b)"
| "py_eq fl _ _ = False"

subsection \<open>\<open>handle_property_single_value\<close>\<close>

text \<open>
  An \<^verbatim>\<open>IfcProperty\<close> as the function sees it: its \<^verbatim>\<open>Name\<close>, whether it is an
  \<^verbatim>\<open>IfcPropertySingleValue\<close>, and the \<^verbatim>\<open>wrappedValue\<close> of its \<^verbatim>\<open>NominalValue\<close> (\<open>None\<close>
  when the attribute is unset; every IFC value instance carries a \<^verbatim>\<open>wrappedValue\<close>, so
  the \<^verbatim>\<open>dir\<close> test holds whenever the attribute is set).

  The configuration of one property set, \<^verbatim>\<open>config['properties_values'][pset]\<close>, is a
  dictionary whose key \<^verbatim>\<open>replace_name\<close> holds a string and whose other keys are
  property names, each with a dictionary that may hold \<^verbatim>\<open>replace_name\<close> (a string) and
  \<^verbatim>\<open>replace_values\<close> (a dictionary from JSON keys, which are strings, to JSON scalars).
\<close>

record 'f ifc_property =
  Name :: string
  is_single_value :: bool
  NominalValue :: "'f pyval option"

record 'f property_config =
  replace_name :: "string option"
  replace_values :: "(string \<times> 'f pyval) list option"

datatype 'f config_entry = PsetReplaceName string | PropertyConfig "'f property_config"

type_synonym 'f properties_values = "(string \<times> 'f config_entry) list"

text \<open>
  The first \<^verbatim>\<open>if\<close>: the rename. Calling \<^verbatim>\<open>.get\<close> on the string stored under the key
  \<^verbatim>\<open>replace_name\<close> raises \<^verbatim>\<open>AttributeError\<close>.
\<close>

definition rename_property ::
  "'f ifc_property \<Rightarrow> 'f properties_values \<Rightarrow> py_error + 'f ifc_property" where
  "rename_property p properties_values =
     (case map_of properties_values (Name p) of
        None \<Rightarrow> Inr p
      | Some (PsetReplaceName _) \<Rightarrow> Inl AttributeError
      | Some (PropertyConfig c) \<Rightarrow>
          (case replace_name c of None \<Rightarrow> Inr p | Some n \<Rightarrow> Inr (p\<lparr>Name := n\<rparr>)))"

text \<open>
  The loop over \<^verbatim>\<open>replace_values.items()\<close>. \<open>property_value\<close> is read once before the
  loop; \<open>w\<close> is the \<^verbatim>\<open>wrappedValue\<close> as stored so far. A conversion that raises ends the
  loop with the error and the value stored up to then.
\<close>

fun replace_loop ::
  "'f float_ops \<Rightarrow> 'f pyval \<Rightarrow> (string \<times> 'f pyval) list \<Rightarrow> 'f pyval \<Rightarrow> 'f pyval \<times> py_error option" where
  "replace_loop fl property_value [] w = (w, None)"
| "replace_loop fl property_value ((old_value, new_value) # items) w =
     (case coerce_like fl property_value (PStr old_value) of
        Inl e \<Rightarrow> (w, Some e)
      | Inr old \<Rightarrow>
          if py_eq fl property_value old
          then (case coerce_like fl property_value new_value of
                  Inl e \<Rightarrow> (w, Some e)
                | Inr new \<Rightarrow> replace_loop fl property_value items new)
          else replace_loop fl property_value items w)"

text \<open>
  The function returns the property as it is when the function ends, and the exception
  if one was raised. The lookup for \<^verbatim>\<open>replace_values\<close> uses \<open>property_name\<close>, the
  name read on entry.
\<close>

definition handle_property_single_value ::
  "'f float_ops \<Rightarrow> 'f ifc_property \<Rightarrow> 'f properties_values \<Rightarrow> 'f ifc_property \<times> py_error option" where
  "handle_property_single_value fl property_single_value properties_values =
     (let property_name = Name property_single_value
      in case rename_property property_single_value properties_values of
           Inl e \<Rightarrow> (property_single_value, Some e)
         | Inr p \<Rightarrow>
             if is_single_value p then
               (case NominalValue p of
                  None \<Rightarrow> (p, None)
                | Some property_value \<Rightarrow>
                    (case map_of properties_values property_name of
                       None \<Rightarrow> (p, None)
                     | Some (PsetReplaceName _) \<Rightarrow> (p, Some AttributeError)
                     | Some (PropertyConfig c) \<Rightarrow>
                         (case replace_values c of
                            None \<Rightarrow> (p, None)
                          | Some items \<Rightarrow>
                              (let r = replace_loop fl property_value items property_value
                               in (p\<lparr>NominalValue := Some (fst r)\<rparr>, snd r)))))
             else (p, None))"

subsection \<open>The output path of \<open>process_ifc_file\<close>\<close>

text \<open>
  \<^verbatim>\<open>s.replace(old, new)\<close>: every occurrence of \<open>old\<close>, found from the left and not
  overlapping, is replaced. With an empty \<open>old\<close>, \<open>new\<close> goes before every character
  and at the end.
\<close>

function py_replace :: "string \<Rightarrow> string \<Rightarrow> string \<Rightarrow> string" where
  "py_replace old new s =
     (if old = [] then concat (map (\<lambda>c. new @ [c]) s) @ new
      else if s = [] then []
      else if prefix old s then new @ py_replace old new (drop (length old) s)
      else hd s # py_replace old new (tl s))"
  by pat_completeness auto
termination
  by (relation "measure (\<lambda>(old, new, s). length s)") auto

declare py_replace.simps [simp del]

definition output_file :: "string \<Rightarrow> string" where
  "output_file ifc_file = py_replace ''.ifc'' ''_fixed.ifc'' ifc_file"

section \<open>The analyzer recipe (ifc2ids\_recipe.py)\<close>

subsection \<open>The statistics that the generation pass reads\<close>

text \<open>
  \<open>element_stats\<close> and \<open>property_stats\<close> as the analysis pass leaves them, with the
  fields that the generation pass reads. Counts are counters that start at 0 and are
  incremented, hence \<open>nat\<close>. A Python \<^verbatim>\<open>set\<close> is the list of its elements in the order
  in which the interpreter iterates over it.
\<close>

record element_stat =
  es_count :: nat
  es_properties :: "string list"

record property_info =
  pi_count :: nat

record pset_info =
  ps_elements :: "string list"
  ps_properties :: "(string \<times> property_info) list"
  ps_count :: nat

type_synonym element_stats = "(string \<times> element_stat) list"

type_synonym property_stats = "(string \<times> pset_info) list"

text \<open>
  The IDS objects that the pass creates: \<^verbatim>\<open>ids.Attribute\<close> and \<^verbatim>\<open>ids.Property\<close> with the
  keyword arguments given, and \<^verbatim>\<open>ids.Specification\<close> with its applicability (the names
  of its \<^verbatim>\<open>ids.Entity\<close> facets) and its requirements.
\<close>

datatype requirement =
  Attribute (attr_name: string) (cardinality: string) (instructions: string)
| Property (baseName: string) (propertySet: string) (cardinality: string) (instructions: string)

record Specification =
  spec_name :: string
  spec_description :: string
  spec_instructions :: string
  applicability :: "string list"
  requirements :: "requirement list"

subsection \<open>\<open>_create_element_specifications\<close>\<close>

text \<open>
  \<^verbatim>\<open>max(iterable, key=f)\<close> on a non-empty iterable: the first element whose key no later
  element exceeds.
\<close>

fun py_max_key :: "('a \<Rightarrow> nat) \<Rightarrow> 'a \<Rightarrow> 'a list \<Rightarrow> 'a" where
  "py_max_key f best [] = best"
| "py_max_key f best (x # xs) = py_max_key f (if f x > f best then x else best) xs"

text \<open>\<^verbatim>\<open>self.property_stats.get(x, {}).get('count', 0)\<close>\<close>

definition pset_usage :: "property_stats \<Rightarrow> string \<Rightarrow> nat" where
  "pset_usage property_stats x =
     (case map_of property_stats x of None \<Rightarrow> 0 | Some info \<Rightarrow> ps_count info)"

definition element_specification ::
  "bool \<Rightarrow> property_stats \<Rightarrow> string \<Rightarrow> element_stat \<Rightarrow> Specification" where
  "element_specification include_geometry property_stats element_type stats =
     \<lparr>spec_name = element_type @ '' Requirements'',
      spec_description = ''Requirements for '' @ element_type @ '' elements (found ''
                           @ str_of_nat (es_count stats) @ '' instances)'',
      spec_instructions = ''All '' @ element_type @ '' elements must meet these requirements'',
      applicability = [element_type],
      requirements =
        (if include_geometry \<and> element_type \<in> set [''IFCWALL'', ''IFCSLAB'', ''IFCBEAM'', ''IFCCOLUMN'']
         then [Attribute ''Representation'' ''required''
                 (element_type @ '' must have geometric representation'')]
         else [])
        @ (case es_properties stats of
             [] \<Rightarrow> []
           | p # ps \<Rightarrow>
               (let common_pset = py_max_key (pset_usage property_stats) p ps
                in [Property ''*'' common_pset ''optional''
                      (''Properties from '' @ common_pset @ '' should be provided where applicable'')]))\<rparr>"

text \<open>
  The loop body: \<open>specs\<close> is \<^verbatim>\<open>ids_spec.specifications\<close>, to which the loop appends.
\<close>

definition element_step ::
  "bool \<Rightarrow> property_stats \<Rightarrow> Specification list \<Rightarrow> string \<times> element_stat \<Rightarrow> Specification list" where
  "element_step include_geometry property_stats specs item =
     (case item of (element_type, stats) \<Rightarrow>
        if es_count stats < 2 then specs
        else specs @ [element_specification include_geometry property_stats element_type stats])"

definition create_element_specifications ::
  "bool \<Rightarrow> element_stats \<Rightarrow> property_stats \<Rightarrow> Specification list \<Rightarrow> Specification list" where
  "create_element_specifications include_geometry element_stats property_stats specs =
     foldl (element_step include_geometry property_stats) specs element_stats"

subsection \<open>\<open>_create_property_specifications\<close>\<close>

text \<open>
  \<^verbatim>\<open>sorted(items, key=lambda x: x[1]['count'], reverse=True)\<close>: a stable sort by
  descending count, which is the stable sort by ascending negated count.
\<close>

definition sorted_by_count_desc :: "('v \<Rightarrow> nat) \<Rightarrow> (string \<times> 'v) list \<Rightarrow> (string \<times> 'v) list" where
  "sorted_by_count_desc count_of items = sort_key (\<lambda>x. - int (count_of (snd x))) items"

text \<open>
  \<^verbatim>\<open>prop_info['count'] < pset_info['count'] * 0.5\<close>: the product is a float and Python
  compares an integer with a float by value. Converting the count to a float and
  halving it are exact for counts below \<open>2^53\<close>, beyond the number of elements that a
  model in memory can have, so the comparison is made in the reals.
\<close>

definition below_half :: "nat \<Rightarrow> nat \<Rightarrow> bool" where
  "below_half prop_count pset_count = (real prop_count < real pset_count * 0.5)"

definition property_requirement :: "string \<Rightarrow> pset_info \<Rightarrow> string \<Rightarrow> property_info \<Rightarrow> requirement" where
  "property_requirement pset_name pset_info prop_name prop_info =
     Property prop_name pset_name
       (if below_half (pi_count prop_info) (ps_count pset_info) then ''optional'' else ''required'')
       (prop_name @ '' should be consistently defined'')"

definition requirement_step ::
  "string \<Rightarrow> pset_info \<Rightarrow> requirement list \<Rightarrow> string \<times> property_info \<Rightarrow> requirement list" where
  "requirement_step pset_name pset_info reqs item =
     (case item of (prop_name, prop_info) \<Rightarrow>
        if pi_count prop_info \<ge> 2
        then reqs @ [property_requirement pset_name pset_info prop_name prop_info]
        else reqs)"

definition critical_props :: "pset_info \<Rightarrow> (string \<times> property_info) list" where
  "critical_props pset_info = take 3 (sorted_by_count_desc pi_count (ps_properties pset_info))"

definition pset_specification :: "string \<Rightarrow> pset_info \<Rightarrow> Specification" where
  "pset_specification pset_name pset_info =
     \<lparr>spec_name = pset_name @ '' Properties'',
      spec_description = ''Property requirements for '' @ pset_name,
      spec_instructions = ''Elements with '' @ pset_name @ '' must have consistent property definitions'',
      applicability = ps_elements pset_info,
      requirements = foldl (requirement_step pset_name pset_info) [] (critical_props pset_info)\<rparr>"

definition pset_step :: "Specification list \<Rightarrow> string \<times> pset_info \<Rightarrow> Specification list" where
  "pset_step specs item =
     (case item of (pset_name, pset_info) \<Rightarrow>
        if ps_count pset_info < 3 then specs
        else (let spec = pset_specification pset_name pset_info
              in if requirements spec \<noteq> [] then specs @ [spec] else specs))"

definition common_psets :: "property_stats \<Rightarrow> (string \<times> pset_info) list" where
  "common_psets property_stats = take 5 (sorted_by_count_desc ps_count property_stats)"

definition create_property_specifications ::
  "property_stats \<Rightarrow> Specification list \<Rightarrow> Specification list" where
  "create_property_specifications property_stats specs =
     foldl pset_step specs (common_psets property_stats)"

text \<open>
  The specifications of \<open>_create_ids_specification\<close>: the two active passes, in order,
  on the empty list of a new \<^verbatim>\<open>ids.Ids\<close>.
\<close>

definition create_ids_specification ::
  "bool \<Rightarrow> element_stats \<Rightarrow> property_stats \<Rightarrow> Specification list" where
  "create_ids_specification include_geometry element_stats property_stats =
     create_property_specifications property_stats
       (create_element_specifications include_geometry element_stats property_stats [])"

subsection \<open>The arguments of \<open>execute\<close> and of the command line\<close>

record 'f patcher_arguments =
  output_path :: "'f pyval"
  include_geometry :: bool
  specification_name :: "'f pyval"

text \<open>
  \<open>execute\<close> up to the call of \<open>Patcher\<close>: \<open>arguments\<close> is \<^verbatim>\<open>args.get("arguments", [])\<close>,
  a list of Python values.
\<close>

definition execute_arguments :: "'f float_ops \<Rightarrow> 'f pyval list \<Rightarrow> 'f patcher_arguments" where
  "execute_arguments fl arguments =
     \<lparr>output_path = (if length arguments > 0 then arguments ! 0 else PStr ''output.ids''),
      include_geometry = (if length arguments > 1 then py_bool fl (arguments ! 1) else False),
      specification_name = (if length arguments > 2 then arguments ! 2 else PStr ''Generated from IFC'')\<rparr>"

text \<open>
  \<^verbatim>\<open>s.lower()\<close> on code points below 256: the letters A to Z and the capital letters
  from 192 to 222 (215, the multiplication sign, is not one) move up by 32.
\<close>

definition lower_char :: "char \<Rightarrow> char" where
  "lower_char c =
     (let n = (of_char c :: nat)
      in if (65 \<le> n \<and> n \<le> 90) \<or> (192 \<le> n \<and> n \<le> 222 \<and> n \<noteq> 215) then char_of (n + 32) else c)"

definition py_lower :: "string \<Rightarrow> string" where
  "py_lower s = map lower_char s"

record main_arguments =
  input_file :: string
  main_output_file :: string
  include_geom :: bool
  spec_name_arg :: string

text \<open>
  The \<^verbatim>\<open>__main__\<close> block up to the call of \<open>Patcher\<close>; \<open>None\<close> is the usage message
  followed by \<^verbatim>\<open>sys.exit(1)\<close>.
\<close>

definition main_arguments_of :: "string list \<Rightarrow> main_arguments option" where
  "main_arguments_of argv =
     (if length argv < 2 then None
      else Some
        \<lparr>input_file = argv ! 1,
         main_output_file = (if length argv > 2 then argv ! 2 else ''output.ids''),
         include_geom = (if length argv > 3 then py_lower (argv ! 3) = ''true'' else False),
         spec_name_arg = (if length argv > 4 then argv ! 4 else ''Generated from IFC'')\<rparr>)"

section \<open>The Fetch panel (ids\_fetch\_panel.py)\<close>

text \<open>
  A decoded JSON document, and what \<^verbatim>\<open>requests.post\<close> does: it raises a
  \<^verbatim>\<open>RequestException\<close> (no connection, timeout), or it returns a response with a
  status code and a body, which decodes to JSON or does not.
\<close>

datatype 'f json = JScalar "'f pyval" | JList "'f json list" | JObj "(string \<times> 'f json) list"

datatype 'f http_outcome = RequestFailed | Response int "'f json option"

record IDS_DomainModel_Item =
  guid :: string
  dm_name :: string
  description :: string
  domain :: string
  version :: string

record fetch_scene =
  ids_fetch_server_selection :: string
  ids_fetch_domain_models :: "IDS_DomainModel_Item list"
  ids_fetch_server_connected :: bool
  ids_fetch_models_count :: int

text \<open>
  \<open>_get_mock_domain_models\<close>. The letter u with diaeresis is the code point 252.
\<close>

definition mock_model :: "string \<Rightarrow> string \<Rightarrow> string \<Rightarrow> string \<Rightarrow> string \<Rightarrow> 'f json" where
  "mock_model g n d dmn v =
     JObj [(''guid'', JScalar (PStr g)), (''name'', JScalar (PStr n)),
           (''description'', JScalar (PStr d)), (''domain'', JScalar (PStr dmn)),
           (''version'', JScalar (PStr v))]"

definition get_mock_domain_models :: "'f json list" where
  "get_mock_domain_models =
     [mock_model ''12345678-1234-1234-1234-123456789abc'' ''Brandschutz Hochbau 2024''
        (''Brandschutzanforderungen f'' @ [CHR 0xFC] @ ''r Hochbauprojekte'') ''Brandschutz'' ''2.1'',
      mock_model ''87654321-4321-4321-4321-cba987654321'' ''Barrierefreiheit DIN 18040''
        ''Barrierefreie Gestaltung nach DIN 18040'' ''Barrierefreiheit'' ''1.5'',
      mock_model ''abcdef12-3456-7890-abcd-ef1234567890''
        (''DB InfraGO Eisenbahnbr'' @ [CHR 0xFC] @ ''cken'')
        (''Deutsche Bahn Standards f'' @ [CHR 0xFC] @ ''r Eisenbahnbr'' @ [CHR 0xFC] @ ''cken'')
        ''Infrastruktur'' ''3.0'',
      mock_model ''fedcba98-7654-3210-fedc-ba9876543210'' ''Nachhaltigkeit DGNB''
        ''DGNB Nachhaltigkeitsanforderungen'' ''Nachhaltigkeit'' ''1.2'']"

definition is_object :: "'f json \<Rightarrow> bool" where
  "is_object j = (case j of JObj _ \<Rightarrow> True | _ \<Rightarrow> False)"

text \<open>
  \<open>_fetch_bim_portal_models\<close>: every exception inside the \<^verbatim>\<open>try\<close> ends in the mock
  models. \<^verbatim>\<open>raise_for_status\<close> raises for the status codes 400 to 599; \<^verbatim>\<open>response.json()\<close>
  raises when the body is not JSON; \<^verbatim>\<open>len(models)\<close> raises for a scalar that is not a
  string; \<^verbatim>\<open>models[:3]\<close> raises for an object; \<^verbatim>\<open>model.get\<close> raises for one of the first
  three elements that is not an object (the elements of a string are strings). The
  result is the sequence that the caller iterates over.
\<close>

definition fetch_bim_portal_models :: "'f http_outcome \<Rightarrow> 'f json list" where
  "fetch_bim_portal_models net =
     (case net of
        RequestFailed \<Rightarrow> get_mock_domain_models
      | Response status body \<Rightarrow>
          if 400 \<le> status \<and> status < 600 then get_mock_domain_models
          else (case body of
                  None \<Rightarrow> get_mock_domain_models
                | Some (JList models) \<Rightarrow>
                    if list_all is_object (take 3 models) then models else get_mock_domain_models
                | Some (JObj _) \<Rightarrow> get_mock_domain_models
                | Some (JScalar (PStr s)) \<Rightarrow>
                    if s = '''' then [] else get_mock_domain_models
                | Some (JScalar _) \<Rightarrow> get_mock_domain_models))"

text \<open>\<^verbatim>\<open>d.get(k, default)\<close>\<close>

definition get_or :: "(string \<times> 'f json) list \<Rightarrow> string \<Rightarrow> 'f json \<Rightarrow> 'f json" where
  "get_or d k dflt = (case map_of d k of None \<Rightarrow> dflt | Some v \<Rightarrow> v)"

text \<open>
  Assigning to a \<^verbatim>\<open>StringProperty\<close>: the host raises \<^verbatim>\<open>TypeError\<close> for a value that is
  not a string.
\<close>

definition as_string :: "'f json \<Rightarrow> py_error + string" where
  "as_string j = (case j of JScalar (PStr s) \<Rightarrow> Inr s | _ \<Rightarrow> Inl TypeError)"

definition new_item :: IDS_DomainModel_Item where
  "new_item = \<lparr>guid = '''', dm_name = '''', description = '''', domain = '''', version = ''''\<rparr>"

text \<open>
  The five assignments to a new item, in order. An assignment that raises leaves the
  item with the fields set before it.
\<close>

definition fill_item :: "(string \<times> 'f json) list \<Rightarrow> IDS_DomainModel_Item \<times> py_error option" where
  "fill_item model =
     (let i0 = new_item
      in case as_string (get_or model ''guid'' (get_or model ''id'' (JScalar (PStr '''')))) of
           Inl e \<Rightarrow> (i0, Some e)
         | Inr g \<Rightarrow>
        (let i1 = i0\<lparr>guid := g\<rparr>
         in case as_string (get_or model ''name'' (JScalar (PStr ''Unbekanntes Modell''))) of
              Inl e \<Rightarrow> (i1, Some e)
            | Inr n \<Rightarrow>
        (let i2 = i1\<lparr>dm_name := n\<rparr>
         in case as_string (get_or model ''description'' (JScalar (PStr ''''))) of
              Inl e \<Rightarrow> (i2, Some e)
            | Inr d \<Rightarrow>
        (let i3 = i2\<lparr>description := d\<rparr>
         in case as_string (get_or model ''domain'' (JScalar (PStr ''Allgemein''))) of
              Inl e \<Rightarrow> (i3, Some e)
            | Inr dmn \<Rightarrow>
        (let i4 = i3\<lparr>domain := dmn\<rparr>
         in case as_string (get_or model ''version'' (JScalar (PStr ''1.0''))) of
              Inl e \<Rightarrow> (i4, Some e)
            | Inr v \<Rightarrow> (i4\<lparr>version := v\<rparr>, None))))))"

text \<open>
  The loop \<^verbatim>\<open>for model in domain_models\<close>: \<open>items\<close> is the collection so far.
  \<^verbatim>\<open>collection.add()\<close> comes first, so an item whose filling raises stays in the
  collection; \<^verbatim>\<open>model.get\<close> on a value that is not an object raises \<^verbatim>\<open>AttributeError\<close>
  after the item was added.
\<close>

fun add_models ::
  "IDS_DomainModel_Item list \<Rightarrow> 'f json list \<Rightarrow> IDS_DomainModel_Item list \<times> py_error option" where
  "add_models items [] = (items, None)"
| "add_models items (JObj model # rest) =
     (case fill_item model of
        (item, None) \<Rightarrow> add_models (items @ [item]) rest
      | (item, Some e) \<Rightarrow> (items @ [item], Some e))"
| "add_models items (_ # rest) = (items @ [new_item], Some AttributeError)"

text \<open>
  \<open>BIM_OT_connect_ids_server.execute\<close>. The report texts hold characters beyond code
  point 255 and the text of the exception, so the model keeps the level of each report.
\<close>

definition connect_execute ::
  "'f http_outcome \<Rightarrow> fetch_scene \<Rightarrow> fetch_scene \<times> report_level list \<times> op_status" where
  "connect_execute net scene =
     (let selected_server = ids_fetch_server_selection scene
      in if selected_server = ''DE_BIM_PORTAL'' then
           (let domain_models = fetch_bim_portal_models net
            in case add_models [] domain_models of
                 (items, None) \<Rightarrow>
                   (scene\<lparr>ids_fetch_domain_models := items,
                          ids_fetch_server_connected := True,
                          ids_fetch_models_count := int (length domain_models)\<rparr>,
                    [INFO, INFO], FINISHED)
               | (items, Some e) \<Rightarrow>
                   (scene\<lparr>ids_fetch_domain_models := items,
                          ids_fetch_server_connected := False,
                          ids_fetch_models_count := 0\<rparr>,
                    [INFO, ERROR], CANCELLED))
         else (scene, [INFO, ERROR], CANCELLED))"

section \<open>Sample inputs\<close>

text \<open>
  IDS documents in the namespace of the IDS schema, built from the elements that the
  parser reads: an entity whose name and predefined type are simple values, a property
  requirement, a specification and the document around them.
\<close>

definition ids_uri :: string where
  "ids_uri = ''http://standards.buildingsmart.org/IDS''"

definition ids_tag :: "string \<Rightarrow> string" where
  "ids_tag l = ''{'' @ ids_uri @ ''}'' @ l"

definition simple_value_elem :: "string \<Rightarrow> string \<Rightarrow> xml" where
  "simple_value_elem t v = Elem (ids_tag t) [] None [Elem (ids_tag ''simpleValue'') [] (Some v) []]"

definition entity_elem :: "string \<Rightarrow> string option \<Rightarrow> xml" where
  "entity_elem n predefined =
     Elem (ids_tag ''entity'') [] None
       (simple_value_elem ''name'' n
        # (case predefined of None \<Rightarrow> [] | Some p \<Rightarrow> [simple_value_elem ''predefinedType'' p]))"

definition property_elem :: "string \<Rightarrow> string \<Rightarrow> xml" where
  "property_elem pset base =
     Elem (ids_tag ''property'') [(''cardinality'', ''required'')] None
       [simple_value_elem ''propertySet'' pset, simple_value_elem ''baseName'' base]"

definition specification_elem :: "string \<Rightarrow> xml list \<Rightarrow> xml list \<Rightarrow> xml" where
  "specification_elem n entities props =
     Elem (ids_tag ''specification'') [(''name'', n), (''ifcVersion'', ''IFC4'')] None
       [Elem (ids_tag ''applicability'') [] None entities,
        Elem (ids_tag ''requirements'') [] None props]"

definition ids_document :: "xml list \<Rightarrow> xml" where
  "ids_document specs =
     Elem (ids_tag ''ids'') [] None
       [Elem (ids_tag ''info'') [] None [Elem (ids_tag ''title'') [] (Some ''Sample'') []],
        Elem (ids_tag ''specifications'') [] None specs]"

text \<open>Two specifications that both apply to IFCDOOR, with different requirements.\<close>

definition first_door_spec :: xml where
  "first_door_spec =
     specification_elem ''Fire doors'' [entity_elem ''IFCDOOR'' None]
       [property_elem ''Pset_DoorCommon'' ''FireRating'']"

definition second_door_spec :: xml where
  "second_door_spec =
     specification_elem ''External doors'' [entity_elem ''IFCDOOR'' None]
       [property_elem ''Pset_DoorCommon'' ''IsExternal'', property_elem ''Pset_Access'' ''Barrierefrei'']"

definition door_requirements :: xml where
  "door_requirements =
     Elem (ids_tag ''requirements'') [] None
       [property_elem ''Pset_DoorCommon'' ''IsExternal'', property_elem ''Pset_Access'' ''Barrierefrei'']"

definition door_entry :: entry where
  "door_entry = \<lparr>entry_name = ''Fire doors'',
                  entry_properties = [(''Pset_DoorCommon'', [(''FireRating'', ())])]\<rparr>"

text \<open>
  An entity whose name is given by a restriction (an enumeration of allowed names), as
  the IDS schema permits, and not by a simple value.
\<close>

definition restricted_entity :: xml where
  "restricted_entity =
     Elem (ids_tag ''entity'') [] None
       [Elem (ids_tag ''name'') [] None
          [Elem ''{http://www.w3.org/2001/XMLSchema}restriction'' [(''base'', ''xs:string'')] None
             [Elem ''{http://www.w3.org/2001/XMLSchema}enumeration'' [(''value'', ''IFCWALL'')] None [],
              Elem ''{http://www.w3.org/2001/XMLSchema}enumeration'' [(''value'', ''IFCSLAB'')] None []]]]"

definition restricted_document :: xml where
  "restricted_document =
     ids_document [specification_elem ''Load bearing'' [restricted_entity]
                     [property_elem ''Pset_WallCommon'' ''LoadBearing'']]"

definition scene_of :: "SimpleTreeNode list \<Rightarrow> int \<Rightarrow> match_scene" where
  "scene_of nodes selected =
     \<lparr>simple_tree_nodes = nodes, simple_selected_index = selected,
      simple_match_results = '''', simple_has_match_results = False,
      simple_matched_entity = ''''\<rparr>"

definition wall_nodes :: "SimpleTreeNode list" where
  "wall_nodes =
     [\<lparr>name = ''IFCWALL'', node_type = ''Entity'', level = 0, expanded = False, has_children = True\<rparr>,
      \<lparr>name = ''Pset_WallCommon'', node_type = ''PropertySet'', level = 1, expanded = False, has_children = True\<rparr>,
      \<lparr>name = ''LoadBearing'', node_type = ''Property'', level = 2, expanded = False, has_children = False\<rparr>]"

text \<open>
  A stand-in for the float operations, with a single float, used to evaluate examples
  in which no float occurs.
\<close>

definition no_floats :: "unit float_ops" where
  "no_floats =
     \<lparr>float_of_str = (\<lambda>_. Inl ValueError), float_of_int = (\<lambda>_. Inr ()),
      int_of_float = (\<lambda>_. Inr 0), str_of_float = (\<lambda>_. ''0.0''),
      float_nonzero = (\<lambda>_. False), float_eq = (\<lambda>_ _. True)\<rparr>"



text \<open>
  A property that is renamed, with value replacements configured under its old name
  and under its new name:
  \<^verbatim>\<open>{"FireRating": {"replace_name": "Feuerwiderstand", "replace_values": {"F30": "F60"}},
    "Feuerwiderstand": {"replace_values": {"F30": "F90"}}}\<close>.
\<close>

definition fire_property :: "unit ifc_property" where
  "fire_property = \<lparr>Name = ''FireRating'', is_single_value = True, NominalValue = Some (PStr ''F30'')\<rparr>"

definition fire_config :: "unit properties_values" where
  "fire_config =
     [(''FireRating'',
       PropertyConfig \<lparr>replace_name = Some ''Feuerwiderstand'',
                        replace_values = Some [(''F30'', PStr ''F60'')]\<rparr>),
      (''Feuerwiderstand'',
       PropertyConfig \<lparr>replace_name = None, replace_values = Some [(''F30'', PStr ''F90'')]\<rparr>)]"

text \<open>
  Statistics of a small model: twelve walls and one door; the wall property set is used
  ten times, with one property on six walls, one on four and one on a single wall; the
  door property set is used twice.
\<close>

definition sample_element_stats :: element_stats where
  "sample_element_stats =
     [(''IfcWall'', \<lparr>es_count = 12, es_properties = [''Pset_WallCommon'']\<rparr>),
      (''IfcDoor'', \<lparr>es_count = 1, es_properties = [''Pset_DoorCommon'']\<rparr>)]"

definition wall_pset_info :: pset_info where
  "wall_pset_info =
     \<lparr>ps_elements = [''IfcWall''],
      ps_properties = [(''Reference'', \<lparr>pi_count = 1\<rparr>), (''IsExternal'', \<lparr>pi_count = 4\<rparr>),
                       (''LoadBearing'', \<lparr>pi_count = 6\<rparr>)],
      ps_count = 10\<rparr>"

definition door_pset_info :: pset_info where
  "door_pset_info =
     \<lparr>ps_elements = [''IfcDoor''],
      ps_properties = [(''FireRating'', \<lparr>pi_count = 2\<rparr>)],
      ps_count = 2\<rparr>"

definition sample_property_stats :: property_stats where
  "sample_property_stats = [(''Pset_DoorCommon'', door_pset_info), (''Pset_WallCommon'', wall_pset_info)]"

text \<open>The scene of the Fetch panel as registration leaves it.\<close>

definition registered_fetch_scene :: fetch_scene where
  "registered_fetch_scene =
     \<lparr>ids_fetch_server_selection = ''DE_BIM_PORTAL'', ids_fetch_domain_models = [],
      ids_fetch_server_connected = False, ids_fetch_models_count = 0\<rparr>"

section \<open>Properties of the structural parser\<close>

subsection \<open>Dictionaries\<close>

lemma map_of_dict_set: "map_of (dict_set d k v) k' = (if k' = k then Some v else map_of d k')"
  by (induction d) auto

lemma keys_dict_set:
  "map fst (dict_set d k v) = (if dict_has d k then map fst d else map fst d @ [k])"
  by (induction d) (auto simp: dict_has_def)

lemma dict_has_dict_set: "dict_has (dict_set d k v) k' \<longleftrightarrow> k' = k \<or> dict_has d k'"
  by (simp add: dict_has_def map_of_dict_set)

lemma distinct_keys_dict_set: "distinct (map fst d) \<Longrightarrow> distinct (map fst (dict_set d k v))"
  by (simp add: keys_dict_set dict_has_def map_of_eq_None_iff)

subsection \<open>Property requirements only add to the properties of an entry\<close>

lemma add_property_keeps_pset: "dict_has props ps \<Longrightarrow> dict_has (add_property NS props p) ps"
  by (auto simp: add_property_def Let_def dict_has_dict_set split: option.splits)

lemma add_property_keeps_placeholder:
  "has_placeholder props ps bn \<Longrightarrow> has_placeholder (add_property NS props p) ps bn"
  by (auto simp: add_property_def Let_def has_placeholder_def map_of_dict_set dict_has_dict_set
        dict_has_def split: option.splits)

lemma foldl_add_property_keeps_pset:
  "dict_has props ps \<Longrightarrow> dict_has (foldl (add_property NS) props xs) ps"
  by (induction xs arbitrary: props) (auto simp: add_property_keeps_pset)

lemma foldl_add_property_keeps_placeholder:
  "has_placeholder props ps bn \<Longrightarrow> has_placeholder (foldl (add_property NS) props xs) ps bn"
  by (induction xs arbitrary: props) (auto simp: add_property_keeps_placeholder)

subsection \<open>The name of an entry never changes\<close>

lemma add_entity_keeps_name:
  assumes "map_of (fst st) k = Some e"
  shows "\<exists>e'. map_of (fst (add_entity NS sn reqs st entity)) k = Some e' \<and> entry_name e' = entry_name e"
  using assms
  by (cases "k = entity_key_of NS entity")
     (auto simp: add_entity_def Let_def dict_has_def map_of_dict_set split: option.splits)

lemma foldl_add_entity_keeps_name:
  "map_of (fst st) k = Some e \<Longrightarrow>
   \<exists>e'. map_of (fst (foldl (add_entity NS sn reqs) st ents)) k = Some e' \<and> entry_name e' = entry_name e"
proof (induction ents arbitrary: st e)
  case Nil
  then show ?case by simp
next
  case (Cons x xs)
  from add_entity_keeps_name[OF Cons.prems]
  obtain e1 where e1: "map_of (fst (add_entity NS sn reqs st x)) k = Some e1"
    and n1: "entry_name e1 = entry_name e"
    by blast
  from Cons.IH[OF e1] n1 show ?case by simp
qed

lemma add_specification_keeps_name:
  "map_of (fst st) k = Some e \<Longrightarrow>
   \<exists>e'. map_of (fst (add_specification NS st spec)) k = Some e' \<and> entry_name e' = entry_name e"
  by (auto simp: add_specification_def Let_def foldl_add_entity_keeps_name split: option.splits)

lemma foldl_add_specification_keeps_name:
  "map_of (fst st) k = Some e \<Longrightarrow>
   \<exists>e'. map_of (fst (foldl (add_specification NS) st specs)) k = Some e' \<and> entry_name e' = entry_name e"
proof (induction specs arbitrary: st e)
  case Nil
  then show ?case by simp
next
  case (Cons x xs)
  from add_specification_keeps_name[OF Cons.prems]
  obtain e1 where e1: "map_of (fst (add_specification NS st x)) k = Some e1"
    and n1: "entry_name e1 = entry_name e"
    by blast
  from Cons.IH[OF e1] n1 show ?case by simp
qed

subsection \<open>Claim C1\<close>

text \<open>
  C1, as the code has it. When the key of an entity is already in the result, the
  step of the parser for that entity prints the duplicate warning and goes on; it keeps
  the keys of the result and their order, every other entry, and the name of the entry
  (the name of the first specification that produced the key). The properties of the
  entry are not left as they were: the property requirements of the specification at
  hand are merged into them, which keeps every property set and every placeholder that
  was there. The name then stays for the rest of the parse, whatever specifications
  follow.
\<close>

theorem C1_duplicate_key_keeps_name_merges_properties:
  "map_of result (entity_key_of NS entity) = Some ent \<Longrightarrow>
   (let st' = add_entity NS sname reqs (result, out) entity;
        merged = foldl (add_property NS) (entry_properties ent)
                   (findall (qname NS ''property'') reqs)
    in snd st' = out @ [duplicate_warning (entity_key_of NS entity)]
       \<and> map fst (fst st') = map fst result
       \<and> (\<forall>k. k \<noteq> entity_key_of NS entity \<longrightarrow> map_of (fst st') k = map_of result k)
       \<and> map_of (fst st') (entity_key_of NS entity)
            = Some \<lparr>entry_name = entry_name ent, entry_properties = merged\<rparr>
       \<and> (\<forall>ps. dict_has (entry_properties ent) ps \<longrightarrow> dict_has merged ps)
       \<and> (\<forall>ps bn. has_placeholder (entry_properties ent) ps bn \<longrightarrow> has_placeholder merged ps bn)
       \<and> (\<forall>specs. \<exists>e'. map_of (fst (foldl (add_specification NS) st' specs)) (entity_key_of NS entity) = Some e'
              \<and> entry_name e' = entry_name ent))"
proof -
  assume h: "map_of result (entity_key_of NS entity) = Some ent"
  let ?key = "entity_key_of NS entity"
  let ?merged = "foldl (add_property NS) (entry_properties ent) (findall (qname NS ''property'') reqs)"
  let ?st = "(dict_set result ?key (ent\<lparr>entry_properties := ?merged\<rparr>), out @ [duplicate_warning ?key])"
  have has: "dict_has result ?key"
    using h by (simp add: dict_has_def)
  have step: "add_entity NS sname reqs (result, out) entity = ?st"
    using h has by (simp add: add_entity_def Let_def)
  have here: "map_of (fst ?st) ?key = Some (ent\<lparr>entry_properties := ?merged\<rparr>)"
    by (simp add: map_of_dict_set)
  have later: "\<exists>e'. map_of (fst (foldl (add_specification NS) ?st specs)) ?key = Some e'
                  \<and> entry_name e' = entry_name ent" for specs
    using foldl_add_specification_keeps_name[OF here, of NS specs] by simp
  show ?thesis
    unfolding Let_def step
    using later
    by (simp add: map_of_dict_set keys_dict_set has
          foldl_add_property_keeps_pset foldl_add_property_keeps_placeholder)
qed

theorem C1_duplicate_key_witness:
  "map_of [(''IFCDOOR'', door_entry)] (entity_key_of ids_uri (entity_elem ''IFCDOOR'' None)) = Some door_entry
   \<and> add_entity ids_uri ''External doors'' door_requirements ([(''IFCDOOR'', door_entry)], [])
        (entity_elem ''IFCDOOR'' None)
      = ([(''IFCDOOR'',
           \<lparr>entry_name = ''Fire doors'',
              entry_properties = [(''Pset_DoorCommon'', [(''FireRating'', ()), (''IsExternal'', ())]),
                                  (''Pset_Access'', [(''Barrierefrei'', ())])]\<rparr>)],
         [duplicate_warning ''IFCDOOR''])"
proof -
  have h: "map_of [(''IFCDOOR'', door_entry)] (entity_key_of ids_uri (entity_elem ''IFCDOOR'' None))
             = Some door_entry"
    by code_simp
  have "add_entity ids_uri ''External doors'' door_requirements ([(''IFCDOOR'', door_entry)], [])
          (entity_elem ''IFCDOOR'' None)
        = ([(''IFCDOOR'',
             \<lparr>entry_name = ''Fire doors'',
                entry_properties = [(''Pset_DoorCommon'', [(''FireRating'', ()), (''IsExternal'', ())]),
                                    (''Pset_Access'', [(''Barrierefrei'', ())])]\<rparr>)],
           [duplicate_warning ''IFCDOOR''])"
    by code_simp
  with h C1_duplicate_key_keeps_name_merges_properties
         [OF h, of "''External doors''" door_requirements "[]"]
  show ?thesis by simp
qed

text \<open>
  C1 as stated fails: the entry for IFCDOOR that the first specification creates is
  changed by the second specification, whose two property requirements are added to it.
\<close>

theorem C1_entry_unchanged_counterexample:
  "fst (parse_ids (ids_document [first_door_spec])) = [(''IFCDOOR'', door_entry)]
   \<and> fst (parse_ids (ids_document [first_door_spec, second_door_spec]))
       = [(''IFCDOOR'',
           \<lparr>entry_name = ''Fire doors'',
              entry_properties = [(''Pset_DoorCommon'', [(''FireRating'', ()), (''IsExternal'', ())]),
                                  (''Pset_Access'', [(''Barrierefrei'', ())])]\<rparr>)]
   \<and> entry_properties door_entry = [(''Pset_DoorCommon'', [(''FireRating'', ())])]
   \<and> snd (parse_ids (ids_document [first_door_spec, second_door_spec])) = [duplicate_warning ''IFCDOOR'']"
  by code_simp

subsection \<open>Claim C6\<close>

text \<open>
  C6. The key under which the step of the parser files an applicability entity is the
  text of the entity's name when the text of its predefined type is empty (absent, or
  present without text), and name, full stop, predefined type otherwise: after the step
  the keys of the result are the keys before it, with that key at the end unless it was
  there. A document with the entity IFCWALL of predefined type SOLIDWALL has the one
  key IFCWALL.SOLIDWALL, and without the predefined type the one key IFCWALL.
\<close>

theorem C6_entity_key_construction:
  "map fst (fst (add_entity NS sname reqs (result, out) entity)) =
     (let n = findtext (qname NS ''name'') (qname NS ''simpleValue'') entity;
          p = findtext (qname NS ''predefinedType'') (qname NS ''simpleValue'') entity;
          key = (if p = '''' then n else n @ ''.'' @ p)
      in if dict_has result key then map fst result else map fst result @ [key])
   \<and> map fst (fst (parse_ids (ids_document
         [specification_elem ''Walls'' [entity_elem ''IFCWALL'' (Some ''SOLIDWALL'')] []])))
       = [''IFCWALL.SOLIDWALL'']
   \<and> map fst (fst (parse_ids (ids_document
         [specification_elem ''Walls'' [entity_elem ''IFCWALL'' None] []])))
       = [''IFCWALL'']"
proof -
  have general:
    "map fst (fst (add_entity NS sname reqs (result, out) entity)) =
       (let n = findtext (qname NS ''name'') (qname NS ''simpleValue'') entity;
            p = findtext (qname NS ''predefinedType'') (qname NS ''simpleValue'') entity;
            key = (if p = '''' then n else n @ ''.'' @ p)
        in if dict_has result key then map fst result else map fst result @ [key])"
    by (auto simp: add_entity_def entity_key_of_def Let_def keys_dict_set dict_has_dict_set
          map_of_dict_set dict_has_def split: option.splits)
  have solid: "map fst (fst (parse_ids (ids_document
         [specification_elem ''Walls'' [entity_elem ''IFCWALL'' (Some ''SOLIDWALL'')] []])))
       = [''IFCWALL.SOLIDWALL'']"
    by code_simp
  have plain: "map fst (fst (parse_ids (ids_document
         [specification_elem ''Walls'' [entity_elem ''IFCWALL'' None] []])))
       = [''IFCWALL'']"
    by code_simp
  from general solid plain show ?thesis by blast
qed

theorem C6_entity_key_witness:
  "map fst (fst (add_entity ids_uri ''Walls'' door_requirements ([(''IFCDOOR'', door_entry)], [])
                   (entity_elem ''IFCWALL'' (Some ''SOLIDWALL''))))
     = [''IFCDOOR'', ''IFCWALL.SOLIDWALL'']"
proof -
  have "findtext (qname ids_uri ''name'') (qname ids_uri ''simpleValue'')
          (entity_elem ''IFCWALL'' (Some ''SOLIDWALL'')) = ''IFCWALL''"
    by code_simp
  moreover have "findtext (qname ids_uri ''predefinedType'') (qname ids_uri ''simpleValue'')
          (entity_elem ''IFCWALL'' (Some ''SOLIDWALL'')) = ''SOLIDWALL''"
    by code_simp
  ultimately show ?thesis
    using C6_entity_key_construction
            [of ids_uri "''Walls''" door_requirements "[(''IFCDOOR'', door_entry)]" "[]"
                "entity_elem ''IFCWALL'' (Some ''SOLIDWALL'')"]
    by (simp add: Let_def dict_has_def)
qed

section \<open>Properties of the Match panel\<close>

lemma find_parent_below_none:
  "find_parent_below nodes n = None \<longleftrightarrow>
     (\<forall>k<n. \<not> (level (nodes ! k) = 0 \<and> node_type (nodes ! k) = ''Entity''))"
  by (induction n) (auto simp: less_Suc_eq)

lemma find_parent_below_nearest:
  assumes "j < n"
    and "level (nodes ! j) = 0" and "node_type (nodes ! j) = ''Entity''"
    and "\<forall>k. j < k \<and> k < n \<longrightarrow> \<not> (level (nodes ! k) = 0 \<and> node_type (nodes ! k) = ''Entity'')"
  shows "find_parent_below nodes n = Some (name (nodes ! j))"
  using assms
proof (induction n)
  case 0
  then show ?case by simp
next
  case (Suc n)
  show ?case
  proof (cases "j = n")
    case True
    with Suc.prems show ?thesis by simp
  next
    case False
    with Suc.prems have "j < n" by simp
    moreover from Suc.prems False
    have "\<not> (level (nodes ! n) = 0 \<and> node_type (nodes ! n) = ''Entity'')"
      by auto
    ultimately show ?thesis
      using Suc.IH Suc.prems by auto
  qed
qed

subsection \<open>Claim C7\<close>

text \<open>
  C7, as the code has it. Let \<open>i\<close> be the selected index and \<open>nodes\<close> the flat sequence.
  Without a selection (an index below 0 or past the end) the operator reports its
  first error, cancels and leaves the scene as it was. With an Entity node selected it
  stores and reports that node's own name. With a PropertySet or Property node
  selected, and \<open>j\<close> the nearest index before \<open>i\<close> that holds an Entity node of level 0,
  it stores and reports the name of node \<open>j\<close>, provided that this name is not empty;
  when no index before \<open>i\<close> holds an Entity node of level 0, it reports its second
  error, different from the first, cancels and leaves the scene as it was.
\<close>

theorem C7_match_reports_owning_entity:
  "(simple_selected_index scene < 0
      \<or> int (length (simple_tree_nodes scene)) \<le> simple_selected_index scene
    \<longrightarrow> match_execute scene
          = (scene, [(ERROR, ''Please select an element from the tree first'')], CANCELLED))
   \<and> (simple_selected_index scene = int i \<and> i < length (simple_tree_nodes scene)
        \<and> node_type (simple_tree_nodes scene ! i) = ''Entity''
    \<longrightarrow> match_execute scene
          = (store_match scene (name (simple_tree_nodes scene ! i)),
             [(INFO, ''Selected IFC class: '' @ name (simple_tree_nodes scene ! i))], FINISHED))
   \<and> (simple_selected_index scene = int i \<and> i < length (simple_tree_nodes scene)
        \<and> node_type (simple_tree_nodes scene ! i) \<in> {''PropertySet'', ''Property''}
        \<and> j < i
        \<and> level (simple_tree_nodes scene ! j) = 0 \<and> node_type (simple_tree_nodes scene ! j) = ''Entity''
        \<and> (\<forall>k. j < k \<and> k < i \<longrightarrow>
               \<not> (level (simple_tree_nodes scene ! k) = 0
                  \<and> node_type (simple_tree_nodes scene ! k) = ''Entity''))
        \<and> name (simple_tree_nodes scene ! j) \<noteq> ''''
    \<longrightarrow> match_execute scene
          = (store_match scene (name (simple_tree_nodes scene ! j)),
             [(INFO, ''Selected element belongs to IFC class: '' @ name (simple_tree_nodes scene ! j))],
             FINISHED))
   \<and> (simple_selected_index scene = int i \<and> i < length (simple_tree_nodes scene)
        \<and> node_type (simple_tree_nodes scene ! i) \<in> {''PropertySet'', ''Property''}
        \<and> (\<forall>k<i. \<not> (level (simple_tree_nodes scene ! k) = 0
                       \<and> node_type (simple_tree_nodes scene ! k) = ''Entity''))
    \<longrightarrow> match_execute scene
          = (scene, [(ERROR, ''Could not determine parent IFC class'')], CANCELLED))
   \<and> ''Please select an element from the tree first'' \<noteq> ''Could not determine parent IFC class''"
proof -
  let ?nodes = "simple_tree_nodes scene"
  have no_selection:
    "simple_selected_index scene < 0 \<or> int (length ?nodes) \<le> simple_selected_index scene
     \<Longrightarrow> match_execute scene
          = (scene, [(ERROR, ''Please select an element from the tree first'')], CANCELLED)"
    by (auto simp: match_execute_def Let_def)
  have entity:
    "match_execute scene
       = (store_match scene (name (?nodes ! i)), [(INFO, ''Selected IFC class: '' @ name (?nodes ! i))], FINISHED)"
    if "simple_selected_index scene = int i" "i < length ?nodes" "node_type (?nodes ! i) = ''Entity''"
    using that by (simp add: match_execute_def Let_def)
  have not_entity: "node_type (?nodes ! i) \<noteq> ''Entity''"
    if "node_type (?nodes ! i) \<in> {''PropertySet'', ''Property''}"
    using that by auto
  have parent:
    "match_execute scene
       = (store_match scene (name (?nodes ! j)),
          [(INFO, ''Selected element belongs to IFC class: '' @ name (?nodes ! j))], FINISHED)"
    if sel: "simple_selected_index scene = int i" "i < length ?nodes"
      and ty: "node_type (?nodes ! i) \<in> {''PropertySet'', ''Property''}"
      and j: "j < i" "level (?nodes ! j) = 0" "node_type (?nodes ! j) = ''Entity''"
      and nearest: "\<forall>k. j < k \<and> k < i \<longrightarrow> \<not> (level (?nodes ! k) = 0 \<and> node_type (?nodes ! k) = ''Entity'')"
      and nonempty: "name (?nodes ! j) \<noteq> ''''"
  proof -
    have "find_parent_entity scene (int i) = Some (name (?nodes ! j))"
      using find_parent_below_nearest[OF j nearest] by (simp add: find_parent_entity_def)
    with sel ty not_entity[OF ty] nonempty show ?thesis
      by (simp add: match_execute_def Let_def)
  qed
  have orphan:
    "match_execute scene = (scene, [(ERROR, ''Could not determine parent IFC class'')], CANCELLED)"
    if sel: "simple_selected_index scene = int i" "i < length ?nodes"
      and ty: "node_type (?nodes ! i) \<in> {''PropertySet'', ''Property''}"
      and none: "\<forall>k<i. \<not> (level (?nodes ! k) = 0 \<and> node_type (?nodes ! k) = ''Entity'')"
  proof -
    have "find_parent_entity scene (int i) = None"
      using none by (simp add: find_parent_entity_def find_parent_below_none)
    with sel ty not_entity[OF ty] show ?thesis
      by (simp add: match_execute_def Let_def)
  qed
  have distinct_errors:
    "''Please select an element from the tree first'' \<noteq> ''Could not determine parent IFC class''"
    by simp
  from no_selection entity parent orphan distinct_errors show ?thesis
    by blast
qed

theorem C7_match_witness:
  "match_execute (scene_of wall_nodes 2)
     = (store_match (scene_of wall_nodes 2) ''IFCWALL'',
        [(INFO, ''Selected element belongs to IFC class: IFCWALL'')], FINISHED)
   \<and> match_execute (scene_of wall_nodes 0)
     = (store_match (scene_of wall_nodes 0) ''IFCWALL'', [(INFO, ''Selected IFC class: IFCWALL'')], FINISHED)
   \<and> match_execute (scene_of wall_nodes (- 1))
     = (scene_of wall_nodes (- 1), [(ERROR, ''Please select an element from the tree first'')], CANCELLED)
   \<and> match_execute (scene_of (tl wall_nodes) 1)
     = (scene_of (tl wall_nodes) 1, [(ERROR, ''Could not determine parent IFC class'')], CANCELLED)"
proof -
  have a: "match_execute (scene_of wall_nodes 2)
     = (store_match (scene_of wall_nodes 2) ''IFCWALL'',
        [(INFO, ''Selected element belongs to IFC class: IFCWALL'')], FINISHED)"
    using C7_match_reports_owning_entity[of "scene_of wall_nodes 2" 2 0]
    by (simp add: scene_of_def wall_nodes_def less_Suc_eq nth_Cons')
  have b: "match_execute (scene_of wall_nodes 0)
     = (store_match (scene_of wall_nodes 0) ''IFCWALL'', [(INFO, ''Selected IFC class: IFCWALL'')], FINISHED)"
    using C7_match_reports_owning_entity[of "scene_of wall_nodes 0" 0 0]
    by (simp add: scene_of_def wall_nodes_def)
  have c: "match_execute (scene_of wall_nodes (- 1))
     = (scene_of wall_nodes (- 1), [(ERROR, ''Please select an element from the tree first'')], CANCELLED)"
    using C7_match_reports_owning_entity[of "scene_of wall_nodes (- 1)" 0 0]
    by (simp add: scene_of_def)
  have d: "match_execute (scene_of (tl wall_nodes) 1)
     = (scene_of (tl wall_nodes) 1, [(ERROR, ''Could not determine parent IFC class'')], CANCELLED)"
    using C7_match_reports_owning_entity[of "scene_of (tl wall_nodes) 1" 1 0]
    by (simp add: scene_of_def wall_nodes_def)
  from a b c d show ?thesis by blast
qed

text \<open>
  C7 as stated fails for an entity whose key is empty, which is what the parser files
  for an entity whose name is a restriction. In the tree of such a document the
  PropertySet node at index 1 has the Entity node of level 0 at index 0 before it, and
  the operator reports an error and stores nothing.
\<close>

theorem C7_empty_entity_name_counterexample:
  "build_tree (fst (parse_ids restricted_document))
     = [\<lparr>name = '''', node_type = ''Entity'', level = 0, expanded = False, has_children = True\<rparr>,
        \<lparr>name = ''Pset_WallCommon'', node_type = ''PropertySet'', level = 1, expanded = False,
           has_children = True\<rparr>,
        \<lparr>name = ''LoadBearing'', node_type = ''Property'', level = 2, expanded = False,
           has_children = False\<rparr>]
   \<and> match_execute (scene_of (build_tree (fst (parse_ids restricted_document))) 1)
     = (scene_of (build_tree (fst (parse_ids restricted_document))) 1,
        [(ERROR, ''Could not determine parent IFC class'')], CANCELLED)"
  by code_simp

section \<open>Properties of the patch engine\<close>






subsection \<open>Claim C2\<close>



subsection \<open>Claim C9\<close>

text \<open>
  C9. When the configuration found under the name of a property renames it, the
  property ends with the new name, and the replacement values applied to it are those
  of that same configuration, the one under the old name: the outcome is the loop over
  them on the renamed property. What the function does depends on the configuration
  only through the entry under the old name, so replacement values configured under
  the new name are not applied.
\<close>

theorem C9_replace_values_use_original_name:
  "map_of pv (Name p) = Some (PropertyConfig c) \<and> replace_name c = Some new_name
   \<longrightarrow> Name (fst (handle_property_single_value fl p pv)) = new_name
       \<and> handle_property_single_value fl p pv
           = (if is_single_value p
              then (case NominalValue p of
                      None \<Rightarrow> (p\<lparr>Name := new_name\<rparr>, None)
                    | Some cur \<Rightarrow>
                        (case replace_values c of
                           None \<Rightarrow> (p\<lparr>Name := new_name\<rparr>, None)
                         | Some items \<Rightarrow>
                             (p\<lparr>Name := new_name,
                                NominalValue := Some (fst (replace_loop fl cur items cur))\<rparr>,
                              snd (replace_loop fl cur items cur))))
              else (p\<lparr>Name := new_name\<rparr>, None))
       \<and> (\<forall>pv'. map_of pv' (Name p) = map_of pv (Name p)
              \<longrightarrow> handle_property_single_value fl p pv' = handle_property_single_value fl p pv)"
  by (auto simp: handle_property_single_value_def rename_property_def Let_def
        split: option.splits)

theorem C9_original_name_witness:
  "handle_property_single_value no_floats fire_property fire_config
     = (\<lparr>Name = ''Feuerwiderstand'', is_single_value = True, NominalValue = Some (PStr ''F60'')\<rparr>, None)"
  using C9_replace_values_use_original_name
          [of fire_config fire_property
              "\<lparr>replace_name = Some ''Feuerwiderstand'', replace_values = Some [(''F30'', PStr ''F60'')]\<rparr>"
              "''Feuerwiderstand''" no_floats]
  by (simp add: fire_config_def fire_property_def)

subsection \<open>Claim C3\<close>

lemma py_replace_nonempty:
  "old \<noteq> [] \<Longrightarrow>
   py_replace old new s =
     (if s = [] then []
      else if prefix old s then new @ py_replace old new (drop (length old) s)
      else hd s # py_replace old new (tl s))"
  by (subst py_replace.simps) simp

lemma py_replace_skip:
  "old \<noteq> [] \<Longrightarrow> \<not> prefix old (c # s) \<Longrightarrow>
   py_replace old new (c # s) = c # py_replace old new s"
  by (subst py_replace_nonempty) simp_all

lemma ifc_not_prefix_of_extended_stem:
  assumes "\<not> sublist ''.ifc'' (c # cs)"
  shows "\<not> prefix ''.ifc'' (c # (cs @ ''.ifc''))"
proof
  assume "prefix ''.ifc'' (c # (cs @ ''.ifc''))"
  then have "prefix ''.ifc'' ((c # cs) @ ''.ifc'')"
    by (simp only: append_Cons)
  then consider "prefix ''.ifc'' (c # cs)"
    | us where "''.ifc'' = (c # cs) @ us" "prefix us ''.ifc''"
    unfolding prefix_append by blast
  then show False
  proof cases
    case 1
    then have "sublist ''.ifc'' (c # cs)"
      by (rule prefix_imp_sublist)
    with assms show ?thesis by simp
  next
    case 2
    with assms show ?thesis
      by (auto simp: Cons_eq_append_conv prefix_Cons)
  qed
qed

text \<open>
  Where the code and C3 agree: a path that ends in \<^verbatim>\<open>.ifc\<close> and holds \<^verbatim>\<open>.ifc\<close> nowhere
  else gets its suffix replaced and nothing more.
\<close>

lemma output_file_single_suffix:
  "\<not> sublist ''.ifc'' stem \<Longrightarrow> output_file (stem @ ''.ifc'') = stem @ ''_fixed.ifc''"
proof (induction stem)
  case Nil
  show ?case
    by (simp add: output_file_def py_replace_nonempty)
next
  case (Cons c cs)
  from Cons.prems have tail: "\<not> sublist ''.ifc'' cs"
    by (auto simp: sublist_Cons_right)
  have "py_replace ''.ifc'' ''_fixed.ifc'' (c # (cs @ ''.ifc''))
          = c # py_replace ''.ifc'' ''_fixed.ifc'' (cs @ ''.ifc'')"
    by (rule py_replace_skip[OF _ ifc_not_prefix_of_extended_stem[OF Cons.prems]]) simp
  with Cons.IH[OF tail] show ?case
    by (simp add: output_file_def)
qed

text \<open>
  C3 fails on the code: \<^verbatim>\<open>str.replace\<close> rewrites every \<^verbatim>\<open>.ifc\<close> in the path, not only
  the suffix. For a model unpacked beside its archive the directory is renamed as
  well, so the output is not the sibling \<^verbatim>\<open>haus_fixed.ifc\<close> of the input.
\<close>

theorem C3_output_path_rewrites_every_occurrence:
  "output_file ''models/haus.ifczip.extracted/haus.ifc''
     = ''models/haus_fixed.ifczip.extracted/haus_fixed.ifc''
   \<and> output_file ''models/haus.ifczip.extracted/haus.ifc''
     \<noteq> ''models/haus.ifczip.extracted/haus_fixed.ifc''"
  by (simp add: output_file_def py_replace_nonempty)

section \<open>Properties of the analyzer recipe\<close>

subsection \<open>The loops as filters\<close>

lemma foldl_element_step:
  "foldl (element_step ig pstats) specs items
     = specs @ map (\<lambda>(t, st). element_specification ig pstats t st)
                 (filter (\<lambda>(t, st). \<not> es_count st < 2) items)"
  by (induction items arbitrary: specs) (auto simp: element_step_def)

lemma foldl_requirement_step:
  "foldl (requirement_step pset_name pset_info) reqs items
     = reqs @ map (\<lambda>(pn, pi). property_requirement pset_name pset_info pn pi)
                (filter (\<lambda>(pn, pi). 2 \<le> pi_count pi) items)"
  by (induction items arbitrary: reqs) (auto simp: requirement_step_def)

lemma foldl_pset_step:
  "foldl pset_step specs items
     = specs @ map (\<lambda>(n, info). pset_specification n info)
                 (filter (\<lambda>(n, info). \<not> ps_count info < 3
                                        \<and> requirements (pset_specification n info) \<noteq> []) items)"
  by (induction items arbitrary: specs) (auto simp: pset_step_def Let_def split: if_splits)

lemma below_half_iff: "below_half c t \<longleftrightarrow> 2 * c < t"
  unfolding below_half_def by (simp add: field_simps) linarith

subsection \<open>The first entries of a list sorted by descending count\<close>

text \<open>
  An entry among the first \<open>k\<close> of the sorted list has fewer than \<open>k\<close> entries with a
  greater count in the whole list.
\<close>

lemma top_of_sort_key:
  assumes "x \<in> set (take k (sort_key f xs))"
  shows "length (filter (\<lambda>y. f y < f x) xs) < k"
proof -
  let ?s = "sort_key f xs"
  let ?P = "\<lambda>y. f y < f x"
  from assms obtain i where i: "i < length (take k ?s)" and xi: "take k ?s ! i = x"
    by (auto simp: in_set_conv_nth)
  then have ik: "i < k" and il: "i < length ?s" and si: "?s ! i = x"
    by auto
  have sorted: "sorted (map f ?s)"
    by (rule sorted_sort_key)
  have "\<not> ?P y" if "y \<in> set (drop i ?s)" for y
  proof -
    from that obtain j where j: "j < length (drop i ?s)" and yj: "drop i ?s ! j = y"
      by (auto simp: in_set_conv_nth)
    then have y: "?s ! (i + j) = y" and ij: "i + j < length ?s"
      by auto
    have "map f ?s ! i \<le> map f ?s ! (i + j)"
      using sorted ij by (intro sorted_nth_mono) auto
    with il ij si y show ?thesis
      by simp
  qed
  then have "filter ?P (drop i ?s) = []"
    by (auto simp: filter_empty_conv)
  then have "filter ?P ?s = filter ?P (take i ?s)"
    by (metis append_Nil2 append_take_drop_id filter_append)
  then have "length (filter ?P ?s) \<le> i"
    by (metis length_filter_le length_take min.cobounded2 order_trans)
  moreover have "length (filter ?P ?s) = length (filter ?P xs)"
    by (simp add: filter_sort)
  ultimately show ?thesis
    using ik by simp
qed

lemma top_of_sorted_by_count_desc:
  assumes "x \<in> set (take k (sorted_by_count_desc count_of items))"
  shows "x \<in> set items"
    and "length (filter (\<lambda>y. count_of (snd x) < count_of (snd y)) items) < k"
proof -
  from assms show "x \<in> set items"
    by (auto simp: sorted_by_count_desc_def dest: in_set_takeD)
  from top_of_sort_key[OF assms[unfolded sorted_by_count_desc_def]]
  show "length (filter (\<lambda>y. count_of (snd x) < count_of (snd y)) items) < k"
    by simp
qed

subsection \<open>Where the specifications and requirements come from\<close>

lemma element_specifications_origin:
  assumes "spec \<in> set (create_element_specifications ig element_stats pstats [])"
  shows "\<exists>t st. (t, st) \<in> set element_stats \<and> 2 \<le> es_count st
                 \<and> spec = element_specification ig pstats t st"
  using assms
  by (force simp: create_element_specifications_def foldl_element_step not_less)

lemma property_specifications_origin:
  assumes "spec \<in> set (create_property_specifications pstats [])"
  shows "\<exists>n info. (n, info) \<in> set (common_psets pstats) \<and> 3 \<le> ps_count info
                   \<and> spec = pset_specification n info"
  using assms
  by (force simp: create_property_specifications_def foldl_pset_step not_less)

lemma pset_requirements_origin:
  assumes "r \<in> set (requirements (pset_specification n info))"
  shows "\<exists>pn pi. (pn, pi) \<in> set (critical_props info) \<and> 2 \<le> pi_count pi
                  \<and> r = property_requirement n info pn pi"
  using assms
  by (auto simp: pset_specification_def foldl_requirement_step)

subsection \<open>Claim C4\<close>

text \<open>
  C4. Every requirement of every property-set specification that the generation pass
  emits is made from a property of that set, and its cardinality is "required" exactly
  when twice the count of the property is at least the count of the property set (the
  count is at least 50% of the total), and "optional" exactly when it is less. With a
  total of 10, a property counted 6 times is required and one counted 4 times is
  optional.
\<close>

theorem C4_cardinality_by_half_of_total:
  "(\<forall>spec r. spec \<in> set (create_property_specifications pstats []) \<and> r \<in> set (requirements spec)
      \<longrightarrow> (\<exists>n info pn pi.
             (n, info) \<in> set pstats \<and> spec = pset_specification n info
             \<and> (pn, pi) \<in> set (ps_properties info)
             \<and> baseName r = pn \<and> propertySet r = n
             \<and> (cardinality r = ''required'' \<longleftrightarrow> ps_count info \<le> 2 * pi_count pi)
             \<and> (cardinality r = ''optional'' \<longleftrightarrow> 2 * pi_count pi < ps_count info)))
   \<and> cardinality (property_requirement n0 (info0\<lparr>ps_count := 10\<rparr>) pn0 \<lparr>pi_count = 6\<rparr>) = ''required''
   \<and> cardinality (property_requirement n0 (info0\<lparr>ps_count := 10\<rparr>) pn0 \<lparr>pi_count = 4\<rparr>) = ''optional''"
proof -
  have general:
    "\<exists>n info pn pi.
        (n, info) \<in> set pstats \<and> spec = pset_specification n info
        \<and> (pn, pi) \<in> set (ps_properties info)
        \<and> baseName r = pn \<and> propertySet r = n
        \<and> (cardinality r = ''required'' \<longleftrightarrow> ps_count info \<le> 2 * pi_count pi)
        \<and> (cardinality r = ''optional'' \<longleftrightarrow> 2 * pi_count pi < ps_count info)"
    if spec: "spec \<in> set (create_property_specifications pstats [])"
      and r: "r \<in> set (requirements spec)" for spec r
  proof -
    from property_specifications_origin[OF spec]
    obtain n info where top: "(n, info) \<in> set (common_psets pstats)"
      and s: "spec = pset_specification n info"
      by blast
    from top have mem: "(n, info) \<in> set pstats"
      unfolding common_psets_def by (rule top_of_sorted_by_count_desc(1))
    from pset_requirements_origin[OF r[unfolded s]]
    obtain pn pi where crit: "(pn, pi) \<in> set (critical_props info)"
      and req: "r = property_requirement n info pn pi"
      by blast
    from crit have pmem: "(pn, pi) \<in> set (ps_properties info)"
      unfolding critical_props_def by (rule top_of_sorted_by_count_desc(1))
    have "baseName r = pn" "propertySet r = n"
      "cardinality r = ''required'' \<longleftrightarrow> ps_count info \<le> 2 * pi_count pi"
      "cardinality r = ''optional'' \<longleftrightarrow> 2 * pi_count pi < ps_count info"
      by (auto simp: req property_requirement_def below_half_iff)
    with mem s pmem show ?thesis
      by blast
  qed
  have six: "cardinality (property_requirement n0 (info0\<lparr>ps_count := 10\<rparr>) pn0 \<lparr>pi_count = 6\<rparr>)
               = ''required''"
    by (simp add: property_requirement_def below_half_iff)
  have four: "cardinality (property_requirement n0 (info0\<lparr>ps_count := 10\<rparr>) pn0 \<lparr>pi_count = 4\<rparr>)
               = ''optional''"
    by (simp add: property_requirement_def below_half_iff)
  from general six four show ?thesis
    by blast
qed

lemma sample_property_specifications:
  "create_property_specifications sample_property_stats []
     = [\<lparr>spec_name = ''Pset_WallCommon Properties'',
          spec_description = ''Property requirements for Pset_WallCommon'',
          spec_instructions = ''Elements with Pset_WallCommon must have consistent property definitions'',
          applicability = [''IfcWall''],
          requirements =
            [Property ''LoadBearing'' ''Pset_WallCommon'' ''required''
               ''LoadBearing should be consistently defined'',
             Property ''IsExternal'' ''Pset_WallCommon'' ''optional''
               ''IsExternal should be consistently defined'']\<rparr>]"
  by (simp add: create_property_specifications_def common_psets_def sorted_by_count_desc_def
        sample_property_stats_def door_pset_info_def wall_pset_info_def pset_step_def
        pset_specification_def critical_props_def requirement_step_def property_requirement_def
        below_half_iff)

theorem C4_cardinality_witness:
  "pset_specification ''Pset_WallCommon'' wall_pset_info
      \<in> set (create_property_specifications sample_property_stats [])
   \<and> requirements (pset_specification ''Pset_WallCommon'' wall_pset_info)
      = [Property ''LoadBearing'' ''Pset_WallCommon'' ''required''
           ''LoadBearing should be consistently defined'',
         Property ''IsExternal'' ''Pset_WallCommon'' ''optional''
           ''IsExternal should be consistently defined'']
   \<and> (\<exists>n info pn pi.
         (n, info) \<in> set sample_property_stats
         \<and> pset_specification ''Pset_WallCommon'' wall_pset_info = pset_specification n info
         \<and> (pn, pi) \<in> set (ps_properties info)
         \<and> ''LoadBearing'' = pn \<and> ''Pset_WallCommon'' = n
         \<and> ps_count info \<le> 2 * pi_count pi)"
proof -
  have reqs: "requirements (pset_specification ''Pset_WallCommon'' wall_pset_info)
      = [Property ''LoadBearing'' ''Pset_WallCommon'' ''required''
           ''LoadBearing should be consistently defined'',
         Property ''IsExternal'' ''Pset_WallCommon'' ''optional''
           ''IsExternal should be consistently defined'']"
    by (simp add: wall_pset_info_def pset_specification_def critical_props_def
          sorted_by_count_desc_def requirement_step_def property_requirement_def below_half_iff)
  have spec: "pset_specification ''Pset_WallCommon'' wall_pset_info
      \<in> set (create_property_specifications sample_property_stats [])"
    by (simp add: sample_property_specifications pset_specification_def reqs[unfolded pset_specification_def]
          wall_pset_info_def critical_props_def sorted_by_count_desc_def requirement_step_def
          property_requirement_def below_half_iff)
  have r: "Property ''LoadBearing'' ''Pset_WallCommon'' ''required''
             ''LoadBearing should be consistently defined''
           \<in> set (requirements (pset_specification ''Pset_WallCommon'' wall_pset_info))"
    by (simp add: reqs)
  from C4_cardinality_by_half_of_total[of sample_property_stats]
  have "\<exists>n info pn pi.
         (n, info) \<in> set sample_property_stats
         \<and> pset_specification ''Pset_WallCommon'' wall_pset_info = pset_specification n info
         \<and> (pn, pi) \<in> set (ps_properties info)
         \<and> baseName (Property ''LoadBearing'' ''Pset_WallCommon'' ''required''
               ''LoadBearing should be consistently defined'') = pn
         \<and> propertySet (Property ''LoadBearing'' ''Pset_WallCommon'' ''required''
               ''LoadBearing should be consistently defined'') = n
         \<and> (cardinality (Property ''LoadBearing'' ''Pset_WallCommon'' ''required''
               ''LoadBearing should be consistently defined'') = ''required''
              \<longleftrightarrow> ps_count info \<le> 2 * pi_count pi)
         \<and> (cardinality (Property ''LoadBearing'' ''Pset_WallCommon'' ''required''
               ''LoadBearing should be consistently defined'') = ''optional''
              \<longleftrightarrow> 2 * pi_count pi < ps_count info)"
    using spec r by blast
  then have "\<exists>n info pn pi.
         (n, info) \<in> set sample_property_stats
         \<and> pset_specification ''Pset_WallCommon'' wall_pset_info = pset_specification n info
         \<and> (pn, pi) \<in> set (ps_properties info)
         \<and> ''LoadBearing'' = pn \<and> ''Pset_WallCommon'' = n
         \<and> ps_count info \<le> 2 * pi_count pi"
    by auto
  with spec reqs show ?thesis
    by blast
qed

subsection \<open>Claim C5\<close>

lemma create_property_specifications_append:
  "create_property_specifications pstats specs = specs @ create_property_specifications pstats []"
  by (simp add: create_property_specifications_def foldl_pset_step)

text \<open>
  C5. The generation pass is the element pass followed by the property-set pass. Every
  specification of the element pass is made for an element type counted at least
  twice, so that a type counted less than twice has no specification of the element
  pass applying to it. Every specification of the property-set pass is made for a
  property set that is counted at least 3 times and that fewer than 5 property sets
  exceed in count (it is among the first five in descending order of count); and every
  requirement of such a specification is made for a property of that set that is
  counted at least twice and that fewer than 3 properties of the set exceed in count.
\<close>

theorem C5_generation_thresholds:
  "create_ids_specification ig element_stats pstats
     = create_element_specifications ig element_stats pstats [] @ create_property_specifications pstats []
   \<and> (\<forall>spec. spec \<in> set (create_element_specifications ig element_stats pstats [])
        \<longrightarrow> (\<exists>t st. (t, st) \<in> set element_stats \<and> 2 \<le> es_count st
                    \<and> spec = element_specification ig pstats t st))
   \<and> (\<forall>t st spec. distinct (map fst element_stats) \<and> (t, st) \<in> set element_stats \<and> es_count st < 2
          \<and> spec \<in> set (create_element_specifications ig element_stats pstats [])
        \<longrightarrow> applicability spec \<noteq> [t])
   \<and> (\<forall>spec. spec \<in> set (create_property_specifications pstats [])
        \<longrightarrow> (\<exists>n info. (n, info) \<in> set pstats \<and> spec = pset_specification n info
               \<and> (n, info) \<in> set (take 5 (sorted_by_count_desc ps_count pstats))
               \<and> 3 \<le> ps_count info
               \<and> length (filter (\<lambda>other. ps_count info < ps_count (snd other)) pstats) < 5
               \<and> (\<forall>r. r \<in> set (requirements spec)
                    \<longrightarrow> (\<exists>pn pi. (pn, pi) \<in> set (ps_properties info)
                           \<and> r = property_requirement n info pn pi
                           \<and> (pn, pi) \<in> set (take 3 (sorted_by_count_desc pi_count (ps_properties info)))
                           \<and> 2 \<le> pi_count pi
                           \<and> length (filter (\<lambda>other. pi_count pi < pi_count (snd other))
                                       (ps_properties info)) < 3))))"
proof -
  have whole: "create_ids_specification ig element_stats pstats
     = create_element_specifications ig element_stats pstats [] @ create_property_specifications pstats []"
    unfolding create_ids_specification_def
    by (rule create_property_specifications_append)
  have elements: "\<exists>t st. (t, st) \<in> set element_stats \<and> 2 \<le> es_count st
                    \<and> spec = element_specification ig pstats t st"
    if "spec \<in> set (create_element_specifications ig element_stats pstats [])" for spec
    using that by (rule element_specifications_origin)
  have rare: "applicability spec \<noteq> [t]"
    if d: "distinct (map fst element_stats)" and mem: "(t, st) \<in> set element_stats"
      and few: "es_count st < 2"
      and spec: "spec \<in> set (create_element_specifications ig element_stats pstats [])"
    for t st spec
  proof
    assume app: "applicability spec = [t]"
    from elements[OF spec] obtain t' st' where mem': "(t', st') \<in> set element_stats"
      and enough: "2 \<le> es_count st'" and s: "spec = element_specification ig pstats t' st'"
      by blast
    from app s have "t' = t"
      by (simp add: element_specification_def)
    with d mem mem' have "st' = st"
      by (auto dest: eq_key_imp_eq_value)
    with few enough show False
      by simp
  qed
  have psets: "\<exists>n info. (n, info) \<in> set pstats \<and> spec = pset_specification n info
               \<and> (n, info) \<in> set (take 5 (sorted_by_count_desc ps_count pstats))
               \<and> 3 \<le> ps_count info
               \<and> length (filter (\<lambda>other. ps_count info < ps_count (snd other)) pstats) < 5
               \<and> (\<forall>r. r \<in> set (requirements spec)
                    \<longrightarrow> (\<exists>pn pi. (pn, pi) \<in> set (ps_properties info)
                           \<and> r = property_requirement n info pn pi
                           \<and> (pn, pi) \<in> set (take 3 (sorted_by_count_desc pi_count (ps_properties info)))
                           \<and> 2 \<le> pi_count pi
                           \<and> length (filter (\<lambda>other. pi_count pi < pi_count (snd other))
                                       (ps_properties info)) < 3))"
    if spec: "spec \<in> set (create_property_specifications pstats [])" for spec
  proof -
    from property_specifications_origin[OF spec]
    obtain n info where top: "(n, info) \<in> set (take 5 (sorted_by_count_desc ps_count pstats))"
      and enough: "3 \<le> ps_count info" and s: "spec = pset_specification n info"
      unfolding common_psets_def by blast
    note t = top_of_sorted_by_count_desc[OF top]
    have reqs: "\<exists>pn pi. (pn, pi) \<in> set (ps_properties info)
                  \<and> r = property_requirement n info pn pi
                  \<and> (pn, pi) \<in> set (take 3 (sorted_by_count_desc pi_count (ps_properties info)))
                  \<and> 2 \<le> pi_count pi
                  \<and> length (filter (\<lambda>other. pi_count pi < pi_count (snd other))
                              (ps_properties info)) < 3"
      if "r \<in> set (requirements spec)" for r
    proof -
      from pset_requirements_origin[OF that[unfolded s]]
      obtain pn pi where crit: "(pn, pi) \<in> set (take 3 (sorted_by_count_desc pi_count (ps_properties info)))"
        and twice: "2 \<le> pi_count pi" and req: "r = property_requirement n info pn pi"
        unfolding critical_props_def by blast
      note c = top_of_sorted_by_count_desc[OF crit]
      from c crit twice req show ?thesis
        by auto
    qed
    from t top enough s reqs show ?thesis
      by auto
  qed
  from whole elements rare psets show ?thesis
    by blast
qed

theorem C5_generation_thresholds_witness:
  "create_ids_specification False sample_element_stats sample_property_stats
     = [element_specification False sample_property_stats ''IfcWall''
          \<lparr>es_count = 12, es_properties = [''Pset_WallCommon'']\<rparr>,
        pset_specification ''Pset_WallCommon'' wall_pset_info]
   \<and> requirements (pset_specification ''Pset_WallCommon'' wall_pset_info)
     = [property_requirement ''Pset_WallCommon'' wall_pset_info ''LoadBearing'' \<lparr>pi_count = 6\<rparr>,
        property_requirement ''Pset_WallCommon'' wall_pset_info ''IsExternal'' \<lparr>pi_count = 4\<rparr>]
   \<and> (\<exists>t st. (t, st) \<in> set sample_element_stats \<and> 2 \<le> es_count st
         \<and> element_specification False sample_property_stats ''IfcWall''
               \<lparr>es_count = 12, es_properties = [''Pset_WallCommon'']\<rparr>
             = element_specification False sample_property_stats t st)
   \<and> applicability (element_specification False sample_property_stats ''IfcWall''
                       \<lparr>es_count = 12, es_properties = [''Pset_WallCommon'']\<rparr>) \<noteq> [''IfcDoor'']
   \<and> (\<exists>n info. (n, info) \<in> set sample_property_stats
         \<and> pset_specification ''Pset_WallCommon'' wall_pset_info = pset_specification n info
         \<and> 3 \<le> ps_count info
         \<and> length (filter (\<lambda>other. ps_count info < ps_count (snd other)) sample_property_stats) < 5)"
proof -
  let ?wall = "element_specification False sample_property_stats ''IfcWall''
                 \<lparr>es_count = 12, es_properties = [''Pset_WallCommon'']\<rparr>"
  let ?pset = "pset_specification ''Pset_WallCommon'' wall_pset_info"
  note thresholds = C5_generation_thresholds[of False sample_element_stats sample_property_stats]
  have elems: "create_element_specifications False sample_element_stats sample_property_stats [] = [?wall]"
    by (simp add: create_element_specifications_def sample_element_stats_def element_step_def)
  have reqs: "requirements ?pset
     = [property_requirement ''Pset_WallCommon'' wall_pset_info ''LoadBearing'' \<lparr>pi_count = 6\<rparr>,
        property_requirement ''Pset_WallCommon'' wall_pset_info ''IsExternal'' \<lparr>pi_count = 4\<rparr>]"
    by (simp add: pset_specification_def critical_props_def sorted_by_count_desc_def
          requirement_step_def wall_pset_info_def)
  have "requirements (pset_specification ''Pset_DoorCommon'' door_pset_info) \<noteq> []"
    by (simp add: pset_specification_def critical_props_def sorted_by_count_desc_def
          requirement_step_def door_pset_info_def)
  with reqs have psets: "create_property_specifications sample_property_stats [] = [?pset]"
    by (simp add: create_property_specifications_def common_psets_def sorted_by_count_desc_def
          sample_property_stats_def pset_step_def Let_def)
       (simp add: door_pset_info_def wall_pset_info_def)
  from thresholds
  have "create_ids_specification False sample_element_stats sample_property_stats
     = create_element_specifications False sample_element_stats sample_property_stats []
       @ create_property_specifications sample_property_stats []"
    by blast
  with elems psets have whole:
    "create_ids_specification False sample_element_stats sample_property_stats = [?wall, ?pset]"
    by simp
  have wall_in: "?wall \<in> set (create_element_specifications False sample_element_stats sample_property_stats [])"
    by (simp add: elems)
  have pset_in: "?pset \<in> set (create_property_specifications sample_property_stats [])"
    by (simp add: psets)
  have door: "distinct (map fst sample_element_stats)"
    "(''IfcDoor'', \<lparr>es_count = 1, es_properties = [''Pset_DoorCommon'']\<rparr>) \<in> set sample_element_stats"
    "es_count \<lparr>es_count = 1, es_properties = [''Pset_DoorCommon'']\<rparr> < 2"
    by (simp_all add: sample_element_stats_def)
  from thresholds wall_in
  have origin: "\<exists>t st. (t, st) \<in> set sample_element_stats \<and> 2 \<le> es_count st
         \<and> ?wall = element_specification False sample_property_stats t st"
    by blast
  from thresholds wall_in door
  have rare: "applicability ?wall \<noteq> [''IfcDoor'']"
    by blast
  from thresholds pset_in
  have top: "\<exists>n info. (n, info) \<in> set sample_property_stats
         \<and> ?pset = pset_specification n info
         \<and> 3 \<le> ps_count info
         \<and> length (filter (\<lambda>other. ps_count info < ps_count (snd other)) sample_property_stats) < 5"
    by blast
  from whole reqs origin rare top show ?thesis
    by blast
qed

subsection \<open>Claim C10\<close>

lemma py_lower_false: "py_lower ''false'' = ''false''"
  by code_simp

lemma py_lower_TRUE: "py_lower ''TRUE'' = ''true''"
  by code_simp

text \<open>
  C10. In \<open>execute\<close> the flag is the truth value of the second argument when there is
  one: for every non-empty string, the string "false" among them, it is true. In the
  command-line form the flag is true exactly when \<^verbatim>\<open>sys.argv[3]\<close> is there and its
  lower-case form is the string "true"; for the argument "false" it is false, so the
  two forms differ on it.
\<close>

theorem C10_execute_flag_is_truthiness:
  "(1 < length arguments
      \<longrightarrow> include_geometry (execute_arguments fl arguments) = py_bool fl (arguments ! 1))
   \<and> (1 < length arguments \<and> arguments ! 1 = PStr s \<and> s \<noteq> ''''
      \<longrightarrow> include_geometry (execute_arguments fl arguments) = True)
   \<and> include_geometry (execute_arguments fl [a0, PStr ''false'']) = True
   \<and> (length arguments \<le> 1 \<longrightarrow> include_geometry (execute_arguments fl arguments) = False)
   \<and> (\<forall>m. main_arguments_of argv = Some m
        \<longrightarrow> (include_geom m \<longleftrightarrow> 3 < length argv \<and> py_lower (argv ! 3) = ''true''))
   \<and> (\<exists>m. main_arguments_of [prog, inp, outp, ''false''] = Some m \<and> include_geom m = False)
   \<and> (\<exists>m. main_arguments_of [prog, inp, outp, ''TRUE''] = Some m \<and> include_geom m = True)"
proof -
  have truthiness: "include_geometry (execute_arguments fl arguments) = py_bool fl (arguments ! 1)"
    if "1 < length arguments"
    using that by (simp add: execute_arguments_def)
  have nonempty: "include_geometry (execute_arguments fl arguments) = True"
    if "1 < length arguments" "arguments ! 1 = PStr s" "s \<noteq> ''''"
    using that by (simp add: execute_arguments_def)
  have false_string: "include_geometry (execute_arguments fl [a0, PStr ''false'']) = True"
    by (simp add: execute_arguments_def)
  have absent: "include_geometry (execute_arguments fl arguments) = False"
    if "length arguments \<le> 1"
    using that by (simp add: execute_arguments_def)
  have command_line: "include_geom m \<longleftrightarrow> 3 < length argv \<and> py_lower (argv ! 3) = ''true''"
    if "main_arguments_of argv = Some m" for m
    using that by (auto simp: main_arguments_of_def split: if_splits)
  have cl_false: "\<exists>m. main_arguments_of [prog, inp, outp, ''false''] = Some m \<and> include_geom m = False"
    by (simp add: main_arguments_of_def py_lower_false)
  have cl_true: "\<exists>m. main_arguments_of [prog, inp, outp, ''TRUE''] = Some m \<and> include_geom m = True"
    by (simp add: main_arguments_of_def py_lower_TRUE)
  from truthiness nonempty false_string absent command_line cl_false cl_true show ?thesis
    by blast
qed

theorem C10_execute_flag_witness:
  "include_geometry (execute_arguments no_floats [PStr ''output.ids'', PStr ''false'']) = True
   \<and> main_arguments_of [''ifc2ids_recipe.py'', ''model.ifc'', ''output.ids'', ''false'']
     = Some \<lparr>input_file = ''model.ifc'', main_output_file = ''output.ids'', include_geom = False,
              spec_name_arg = ''Generated from IFC''\<rparr>"
  using C10_execute_flag_is_truthiness
          [where arguments = "[PStr ''output.ids'', PStr ''false'']" and fl = no_floats
             and s = "''false''"
             and argv = "[''ifc2ids_recipe.py'', ''model.ifc'', ''output.ids'', ''false'']"]
  by (simp add: main_arguments_of_def py_lower_false)

section \<open>Properties of the Fetch panel\<close>

lemma mock_items:
  "add_models [] (get_mock_domain_models :: 'f json list)
     = ([\<lparr>guid = ''12345678-1234-1234-1234-123456789abc'', dm_name = ''Brandschutz Hochbau 2024'',
           description = ''Brandschutzanforderungen f'' @ [CHR 0xFC] @ ''r Hochbauprojekte'',
           domain = ''Brandschutz'', version = ''2.1''\<rparr>,
         \<lparr>guid = ''87654321-4321-4321-4321-cba987654321'', dm_name = ''Barrierefreiheit DIN 18040'',
           description = ''Barrierefreie Gestaltung nach DIN 18040'',
           domain = ''Barrierefreiheit'', version = ''1.5''\<rparr>,
         \<lparr>guid = ''abcdef12-3456-7890-abcd-ef1234567890'',
           dm_name = ''DB InfraGO Eisenbahnbr'' @ [CHR 0xFC] @ ''cken'',
           description = ''Deutsche Bahn Standards f'' @ [CHR 0xFC] @ ''r Eisenbahnbr'' @ [CHR 0xFC] @ ''cken'',
           domain = ''Infrastruktur'', version = ''3.0''\<rparr>,
         \<lparr>guid = ''fedcba98-7654-3210-fedc-ba9876543210'', dm_name = ''Nachhaltigkeit DGNB'',
           description = ''DGNB Nachhaltigkeitsanforderungen'',
           domain = ''Nachhaltigkeit'', version = ''1.2''\<rparr>],
        None)"
  by (simp add: get_mock_domain_models_def mock_model_def fill_item_def get_or_def as_string_def
        new_item_def)

lemma mock_length: "length (get_mock_domain_models :: 'f json list) = 4"
  by (simp add: get_mock_domain_models_def)

lemma fetch_after_failure:
  "net = RequestFailed \<or> (\<exists>status body. net = Response status body \<and> 400 \<le> status \<and> status < 600)
   \<Longrightarrow> fetch_bim_portal_models net = get_mock_domain_models"
  by (auto simp: fetch_bim_portal_models_def)

subsection \<open>Claim C8\<close>

text \<open>
  C8. With the portal selected, which is the only server there is, a model-list
  request that fails (the request raises, or the portal answers with an error status)
  does not make the connect action fail: it finishes, marks the server connected,
  counts 4 models and fills the collection with exactly the 4 mock models, whose names
  are, in order, Brandschutz Hochbau 2024, Barrierefreiheit DIN 18040, DB InfraGO
  Eisenbahnbruecken (written with the letter u with diaeresis, code point 252) and
  Nachhaltigkeit DGNB.
\<close>

theorem C8_offline_fallback_models:
  "ids_fetch_server_selection scene = ''DE_BIM_PORTAL''
   \<and> (net = RequestFailed \<or> (\<exists>status body. net = Response status body \<and> 400 \<le> status \<and> status < 600))
   \<longrightarrow> (\<exists>scene'. connect_execute net scene = (scene', [INFO, INFO], FINISHED)
          \<and> map dm_name (ids_fetch_domain_models scene')
              = [''Brandschutz Hochbau 2024'', ''Barrierefreiheit DIN 18040'',
                 ''DB InfraGO Eisenbahnbr'' @ [CHR 0xFC] @ ''cken'', ''Nachhaltigkeit DGNB'']
          \<and> length (ids_fetch_domain_models scene') = 4
          \<and> ids_fetch_models_count scene' = 4
          \<and> ids_fetch_server_connected scene')"
proof
  assume h: "ids_fetch_server_selection scene = ''DE_BIM_PORTAL''
   \<and> (net = RequestFailed \<or> (\<exists>status body. net = Response status body \<and> 400 \<le> status \<and> status < 600))"
  then have models: "fetch_bim_portal_models net = get_mock_domain_models"
    by (intro fetch_after_failure) blast
  from h show "\<exists>scene'. connect_execute net scene = (scene', [INFO, INFO], FINISHED)
          \<and> map dm_name (ids_fetch_domain_models scene')
              = [''Brandschutz Hochbau 2024'', ''Barrierefreiheit DIN 18040'',
                 ''DB InfraGO Eisenbahnbr'' @ [CHR 0xFC] @ ''cken'', ''Nachhaltigkeit DGNB'']
          \<and> length (ids_fetch_domain_models scene') = 4
          \<and> ids_fetch_models_count scene' = 4
          \<and> ids_fetch_server_connected scene'"
    by (simp add: connect_execute_def Let_def models mock_items mock_length)
qed

theorem C8_offline_fallback_witness:
  "map dm_name (ids_fetch_domain_models
      (fst (connect_execute (RequestFailed :: unit http_outcome) registered_fetch_scene)))
     = [''Brandschutz Hochbau 2024'', ''Barrierefreiheit DIN 18040'',
        ''DB InfraGO Eisenbahnbr'' @ [CHR 0xFC] @ ''cken'', ''Nachhaltigkeit DGNB'']
   \<and> snd (connect_execute (RequestFailed :: unit http_outcome) registered_fetch_scene)
     = ([INFO, INFO], FINISHED)
   \<and> snd (connect_execute (Response 503 None :: unit http_outcome) registered_fetch_scene)
     = ([INFO, INFO], FINISHED)"
proof -
  have sel: "ids_fetch_server_selection registered_fetch_scene = ''DE_BIM_PORTAL''"
    by (simp add: registered_fetch_scene_def)
  from C8_offline_fallback_models[of registered_fetch_scene "RequestFailed :: unit http_outcome"] sel
  have a: "map dm_name (ids_fetch_domain_models
      (fst (connect_execute (RequestFailed :: unit http_outcome) registered_fetch_scene)))
     = [''Brandschutz Hochbau 2024'', ''Barrierefreiheit DIN 18040'',
        ''DB InfraGO Eisenbahnbr'' @ [CHR 0xFC] @ ''cken'', ''Nachhaltigkeit DGNB'']"
    and b: "snd (connect_execute (RequestFailed :: unit http_outcome) registered_fetch_scene)
     = ([INFO, INFO], FINISHED)"
    by auto
  from C8_offline_fallback_models[of registered_fetch_scene "Response 503 None :: unit http_outcome"] sel
  have c: "snd (connect_execute (Response 503 None :: unit http_outcome) registered_fetch_scene)
     = ([INFO, INFO], FINISHED)"
    by auto
  from a b c show ?thesis
    by blast
qed

end
